theory Spec2Isabelle
  imports Main "HOL-Library.AList" "HOL-Library.Sublist" "HOL-Library.Multiset"
begin

section \<open>Request values\<close>

text \<open>
  The values a request body can carry. A body parsed from JSON holds any of them; a
  multipart body holds strings only. Numbers are the integers. There is no constructor
  for \<open>undefined\<close>: reading a key that is absent gives \<open>None\<close>.
\<close>

datatype jsval =
    JNull
  | JBool bool
  | JNum int
  | JStr string
  | JArr "jsval list"
  | JObj "(string \<times> jsval) list"

text \<open>JavaScript's truthiness, as used by \<open>&&\<close>, \<open>if\<close> and \<open>filter(Boolean)\<close>.\<close>

fun truthy :: "jsval \<Rightarrow> bool" where
  "truthy JNull = False"
| "truthy (JBool b) = b"
| "truthy (JNum n) = (n \<noteq> 0)"
| "truthy (JStr s) = (s \<noteq> [])"
| "truthy (JArr vs) = True"
| "truthy (JObj kvs) = True"

text \<open>A property read: \<open>undefined\<close> (the key is absent) is falsy.\<close>

fun truthyOpt :: "jsval option \<Rightarrow> bool" where
  "truthyOpt None = False"
| "truthyOpt (Some v) = truthy v"

text \<open>
  \<open>req.body\<close>: an object, as the list of its entries in insertion order (the order of
  \<open>Object.keys\<close> for keys that are not integers). Assigning to a key that is present
  keeps its place, assigning to a new key appends it: \<open>AList.update\<close>.
\<close>

type_synonym body = "(string \<times> jsval) list"

section \<open>Reconstruction of the array fields\<close>

text \<open>
  \<open>key.match(/\[(\d+)\]/)\<close>: the digits of the leftmost \<open>[digits]\<close> group of the key.
  At an opening bracket the digits are taken greedily; when no closing bracket follows
  them the search goes on at the next character.
\<close>

definition isDigit :: "char \<Rightarrow> bool" where
  "isDigit c = (c \<in> set ''0123456789'')"

fun matchIndex :: "string \<Rightarrow> string option" where
  "matchIndex [] = None"
| "matchIndex (c # cs) =
     (if c = CHR ''[''
      then (let ds = takeWhile isDigit cs; rest = dropWhile isDigit cs
            in if ds \<noteq> [] \<and> take 1 rest = '']'' then Some ds else matchIndex cs)
      else matchIndex cs)"

definition startsWith :: "string \<Rightarrow> string \<Rightarrow> bool" where
  "startsWith key p = prefix p key"

text \<open>\<open>parseInt\<close> on a string of decimal digits.\<close>

definition digitVal :: "char \<Rightarrow> nat" where
  "digitVal c = of_char c - 48"

definition parseInt :: "string \<Rightarrow> nat" where
  "parseInt ds = foldl (\<lambda>n c. 10 * n + digitVal c) 0 ds"

text \<open>
  A JavaScript array that may have holes: the elements that are present, by ascending
  index. \<open>a[i] = v\<close> stores an element only when \<open>i\<close> is an array index, that is below
  \<open>2^32 - 1\<close>; beyond that the assignment sets an ordinary property, which neither
  \<open>length\<close> nor \<open>filter\<close> sees.
\<close>

type_synonym jsarray = "(nat \<times> jsval) list"

fun arraySet :: "nat \<Rightarrow> jsval \<Rightarrow> jsarray \<Rightarrow> jsarray" where
  "arraySet i v [] = [(i, v)]"
| "arraySet i v ((j, w) # xs) =
     (if i < j then (i, v) # (j, w) # xs
      else if i = j then (i, v) # xs
      else (j, w) # arraySet i v xs)"

definition arrayAssign :: "nat \<Rightarrow> jsval \<Rightarrow> jsarray \<Rightarrow> jsarray" where
  "arrayAssign i v a = (if i < 4294967295 then arraySet i v a else a)"

definition arrayLength :: "jsarray \<Rightarrow> nat" where
  "arrayLength a = (if a = [] then 0 else Suc (fst (last a)))"

text \<open>\<open>a.filter(Boolean)\<close>: the truthy elements, by ascending index; holes are skipped.\<close>

definition filterBoolean :: "jsarray \<Rightarrow> jsval list" where
  "filterBoolean a = filter truthy (map snd a)"

text \<open>
  \<open>JSON.parse\<close> is the language's own function and is a parameter of the model:
  \<open>None\<close> is the SyntaxError it throws.

  A \<open>features\<close> or \<open>tools\<close> value that is a truthy string is replaced by its parse, or by
  the one-element list of the string when the parse throws.
\<close>

definition fallbackParse :: "(string \<Rightarrow> jsval option) \<Rightarrow> string \<Rightarrow> jsval" where
  "fallbackParse parse s = (case parse s of Some v \<Rightarrow> v | None \<Rightarrow> JArr [JStr s])"

definition parseArrayField :: "(string \<Rightarrow> jsval option) \<Rightarrow> string \<Rightarrow> body \<Rightarrow> body" where
  "parseArrayField parse k b =
     (case map_of b k of
        Some (JStr s) \<Rightarrow>
          if s \<noteq> []
          then AList.update k (fallbackParse parse s) b
          else b
      | _ \<Rightarrow> b)"

text \<open>
  One round of the \<open>forEach\<close> over \<open>Object.keys(req.body)\<close>. The state is the two local
  arrays and the body, from which a key that was taken is deleted. An object has each
  key once, so \<open>req.body[key]\<close> is the value of the entry visited.
\<close>

fun collectKey :: "string \<times> jsval \<Rightarrow> jsarray \<times> jsarray \<times> body \<Rightarrow> jsarray \<times> jsarray \<times> body" where
  "collectKey (key, v) (features, tools, b) =
     (if startsWith key ''features['' then
        (case matchIndex key of
           Some ds \<Rightarrow> (arrayAssign (parseInt ds) v features, tools, AList.delete key b)
         | None \<Rightarrow> (features, tools, b))
      else if startsWith key ''tools['' then
        (case matchIndex key of
           Some ds \<Rightarrow> (features, arrayAssign (parseInt ds) v tools, AList.delete key b)
         | None \<Rightarrow> (features, tools, b))
      else (features, tools, b))"

text \<open>
  The block that \<open>addProject\<close> (on both of its paths) and \<open>updateProject\<close> run on the
  body before anything else: parse the string-valued fields, collect the indexed keys,
  and store each array that has a positive length after \<open>filter(Boolean)\<close>.
\<close>

definition normalizeBody :: "(string \<Rightarrow> jsval option) \<Rightarrow> body \<Rightarrow> body" where
  "normalizeBody parse b0 =
     (let b1 = parseArrayField parse ''features'' b0;
          b2 = parseArrayField parse ''tools'' b1;
          (features, tools, b3) = fold collectKey b2 ([], [], b2);
          b4 = (if arrayLength features > 0
                then AList.update ''features'' (JArr (filterBoolean features)) b3 else b3);
          b5 = (if arrayLength tools > 0
                then AList.update ''tools'' (JArr (filterBoolean tools)) b4 else b4)
      in b5)"

text \<open>The indexed entries of a body for one field, as (index, value), in key order.\<close>

definition indexedEntries :: "string \<Rightarrow> body \<Rightarrow> (nat \<times> jsval) list" where
  "indexedEntries pre b =
     map (\<lambda>(k, v). (parseInt (the (matchIndex k)), v))
       (filter (\<lambda>(k, v). startsWith k pre \<and> matchIndex k \<noteq> None) b)"


text \<open>
  What the reconstruction is to give for one field, in the words of the specification:
  when the body has indexed entries for the field, the list of their truthy values by
  ascending index; otherwise a non-empty string value parsed as JSON, or the one-element
  list of the string when the parse fails; otherwise the value as it came.
\<close>

definition reconstructed ::
  "(string \<Rightarrow> jsval option) \<Rightarrow> (nat \<times> jsval) list \<Rightarrow> jsval option \<Rightarrow> jsval option" where
  "reconstructed parse es field =
     (if es \<noteq> [] then Some (JArr (filter truthy (map snd (sort_key fst es))))
      else (case field of
              Some (JStr s) \<Rightarrow> if s \<noteq> [] then Some (fallbackParse parse s) else Some (JStr s)
            | other \<Rightarrow> other))"

text \<open>Indexed entries that name each index once, every index an array index.\<close>

definition validIndices :: "(nat \<times> jsval) list \<Rightarrow> bool" where
  "validIndices es = (distinct (map fst es) \<and> (\<forall>i \<in> set (map fst es). i < 4294967295))"

section \<open>Projects\<close>

text \<open>
  Modelled from the spec: the Project schema (\<open>models/Project.js\<close>) is not among the
  sources. The record has the fields of the specification's data model, with the
  identifier and the creation timestamp that the server assigns. A string field that is
  not set is the empty string.
\<close>

record project =
  projectId :: string
  createdAt :: nat
  title :: string
  description :: string
  features :: "string list"
  tools :: "string list"
  githubLink :: string
  deployedUrl :: string
  duration :: string
  challenges :: string
  cloudinaryVideoUrl :: string
  cloudinaryVideoPublicId :: string
  cloudinaryThumbnailUrl :: string
  cloudinaryThumbnailPublicId :: string

text \<open>
  Modelled from the spec: how the schema reads a body value into a field. A key that is
  absent leaves the field alone, \<open>null\<close> empties it, and a value of another type is
  malformed. A single string given for a list field is the one-element list.
\<close>

datatype 'a cast = Absent | Given 'a | Malformed

fun castString :: "jsval option \<Rightarrow> string cast" where
  "castString None = Absent"
| "castString (Some (JStr s)) = Given s"
| "castString (Some JNull) = Given []"
| "castString (Some v) = Malformed"

fun castStrings :: "jsval list \<Rightarrow> string list option" where
  "castStrings [] = Some []"
| "castStrings (JStr s # vs) = map_option (Cons s) (castStrings vs)"
| "castStrings (v # vs) = None"

fun castList :: "jsval option \<Rightarrow> string list cast" where
  "castList None = Absent"
| "castList (Some (JArr vs)) = (case castStrings vs of Some ss \<Rightarrow> Given ss | None \<Rightarrow> Malformed)"
| "castList (Some (JStr s)) = Given [s]"
| "castList (Some JNull) = Given []"
| "castList (Some v) = Malformed"

definition fieldValue :: "'a \<Rightarrow> 'a cast \<Rightarrow> 'a" where
  "fieldValue current c = (case c of Given x \<Rightarrow> x | Absent \<Rightarrow> current | Malformed \<Rightarrow> current)"

type_synonym errors = "(string \<times> string) list"

text \<open>
  Modelled from the spec: validation, as a mapping from field name to message. \<open>title\<close>
  and \<open>description\<close> are required; any field may be malformed.
\<close>

definition malformedError :: "string \<Rightarrow> 'a cast \<Rightarrow> errors" where
  "malformedError f c = (case c of Malformed \<Rightarrow> [(f, ''Cast failed'')] | Given x \<Rightarrow> [] | Absent \<Rightarrow> [])"

definition requiredOnCreate :: "string \<Rightarrow> string cast \<Rightarrow> errors" where
  "requiredOnCreate f c =
     (case c of
        Given s \<Rightarrow> if s = [] then [(f, f @ '' is required'')] else []
      | Absent \<Rightarrow> [(f, f @ '' is required'')]
      | Malformed \<Rightarrow> [(f, ''Cast failed'')])"

definition requiredOnUpdate :: "string \<Rightarrow> string cast \<Rightarrow> errors" where
  "requiredOnUpdate f c =
     (case c of
        Given s \<Rightarrow> if s = [] then [(f, f @ '' is required'')] else []
      | Absent \<Rightarrow> []
      | Malformed \<Rightarrow> [(f, ''Cast failed'')])"

definition optionalErrors :: "body \<Rightarrow> errors" where
  "optionalErrors b =
     malformedError ''features'' (castList (map_of b ''features'')) @
     malformedError ''tools'' (castList (map_of b ''tools'')) @
     malformedError ''githubLink'' (castString (map_of b ''githubLink'')) @
     malformedError ''deployedUrl'' (castString (map_of b ''deployedUrl'')) @
     malformedError ''duration'' (castString (map_of b ''duration'')) @
     malformedError ''challenges'' (castString (map_of b ''challenges'')) @
     malformedError ''cloudinaryVideoUrl'' (castString (map_of b ''cloudinaryVideoUrl'')) @
     malformedError ''cloudinaryVideoPublicId'' (castString (map_of b ''cloudinaryVideoPublicId'')) @
     malformedError ''cloudinaryThumbnailUrl'' (castString (map_of b ''cloudinaryThumbnailUrl'')) @
     malformedError ''cloudinaryThumbnailPublicId''
       (castString (map_of b ''cloudinaryThumbnailPublicId''))"

text \<open>
  Modelled from the spec: the fields of a body written over a document; a field whose
  key is absent stays, and keys that are no fields of the schema are ignored.
\<close>

definition assignFields :: "project \<Rightarrow> body \<Rightarrow> project" where
  "assignFields p b =
     p\<lparr> title := fieldValue (title p) (castString (map_of b ''title'')),
        description := fieldValue (description p) (castString (map_of b ''description'')),
        features := fieldValue (features p) (castList (map_of b ''features'')),
        tools := fieldValue (tools p) (castList (map_of b ''tools'')),
        githubLink := fieldValue (githubLink p) (castString (map_of b ''githubLink'')),
        deployedUrl := fieldValue (deployedUrl p) (castString (map_of b ''deployedUrl'')),
        duration := fieldValue (duration p) (castString (map_of b ''duration'')),
        challenges := fieldValue (challenges p) (castString (map_of b ''challenges'')),
        cloudinaryVideoUrl :=
          fieldValue (cloudinaryVideoUrl p) (castString (map_of b ''cloudinaryVideoUrl'')),
        cloudinaryVideoPublicId :=
          fieldValue (cloudinaryVideoPublicId p) (castString (map_of b ''cloudinaryVideoPublicId'')),
        cloudinaryThumbnailUrl :=
          fieldValue (cloudinaryThumbnailUrl p) (castString (map_of b ''cloudinaryThumbnailUrl'')),
        cloudinaryThumbnailPublicId :=
          fieldValue (cloudinaryThumbnailPublicId p)
            (castString (map_of b ''cloudinaryThumbnailPublicId'')) \<rparr>"

definition blankProject :: "string \<Rightarrow> nat \<Rightarrow> project" where
  "blankProject newId t =
     \<lparr> projectId = newId, createdAt = t, title = [], description = [], features = [],
       tools = [], githubLink = [], deployedUrl = [], duration = [], challenges = [],
       cloudinaryVideoUrl = [], cloudinaryVideoPublicId = [],
       cloudinaryThumbnailUrl = [], cloudinaryThumbnailPublicId = [] \<rparr>"

text \<open>
  Modelled from the spec: \<open>new Project(req.body)\<close> followed by \<open>save()\<close>, which
  validates and either rejects with the validation errors or gives the new document.
\<close>

definition newProject :: "string \<Rightarrow> nat \<Rightarrow> body \<Rightarrow> errors + project" where
  "newProject newId t b =
     (let errs = requiredOnCreate ''title'' (castString (map_of b ''title'')) @
                 requiredOnCreate ''description'' (castString (map_of b ''description'')) @
                 optionalErrors b
      in if errs \<noteq> [] then Inl errs else Inr (assignFields (blankProject newId t) b))"

text \<open>
  Modelled from the spec: the document that \<open>findByIdAndUpdate\<close> with
  \<open>runValidators\<close> gives for an existing document and a body, or the validation errors.
\<close>

definition updatedProject :: "project \<Rightarrow> body \<Rightarrow> errors + project" where
  "updatedProject p b =
     (let errs = requiredOnUpdate ''title'' (castString (map_of b ''title'')) @
                 requiredOnUpdate ''description'' (castString (map_of b ''description'')) @
                 optionalErrors b
      in if errs \<noteq> [] then Inl errs else Inr (assignFields p b))"

text \<open>
  The collection, as the list of its documents in the order of their creation, and the
  queries the controller makes on it. The database itself does not fail here: the 500
  answers of the handlers come from the media store only.
\<close>

definition findById :: "string \<Rightarrow> project list \<Rightarrow> project option" where
  "findById i ps = find (\<lambda>p. projectId p = i) ps"

definition replaceById :: "string \<Rightarrow> project \<Rightarrow> project list \<Rightarrow> project list" where
  "replaceById i doc ps = map (\<lambda>p. if projectId p = i then doc else p) ps"

definition findByIdAndDelete :: "string \<Rightarrow> project list \<Rightarrow> project list" where
  "findByIdAndDelete i ps = filter (\<lambda>p. projectId p \<noteq> i) ps"

text \<open>\<open>find().sort({ createdAt: -1 })\<close>: every document, by descending creation time.\<close>

definition findSorted :: "project list \<Rightarrow> project list" where
  "findSorted ps = sort_key (\<lambda>p. - int (createdAt p)) ps"

section \<open>The project controller\<close>

text \<open>
  What the controller calls and does not define: the identifier check of the database
  library, \<open>JSON.parse\<close>, the helpers of the media store (absent from the sources; a
  call resolves with a value or rejects with a message), and the identifier and time
  that the server assigns to a new document.
\<close>

datatype 'a outcome = Resolved 'a | Rejected string

datatype medium = Video | Thumbnail

record env =
  isValidObjectId :: "string \<Rightarrow> bool"
  jsonParse :: "string \<Rightarrow> jsval option"
  deleteVideoFromCloudinary :: "string \<Rightarrow> unit outcome"
  deleteImageFromCloudinary :: "string \<Rightarrow> unit outcome"
  uploadVideoToCloudinary :: "string \<Rightarrow> (string \<times> string) outcome"
  uploadImageToCloudinary :: "string \<Rightarrow> (string \<times> string) outcome"
  newObjectId :: string
  currentTime :: nat

text \<open>
  A request: the \<open>:id\<close> of the route, the content type header, the body, and the files
  of a multipart request (\<open>req.files['video'][0]\<close>, \<open>req.files['thumbnail'][0]\<close>), each
  as the buffer or path handed to the upload helper.
\<close>

record request =
  paramsId :: string
  contentType :: string
  reqBody :: body
  videoFile :: "string option"
  thumbnailFile :: "string option"

text \<open>The calls a handler issues, in order, and what it writes to the console.\<close>

datatype event =
    Find
  | FindById string
  | Save
  | FindByIdAndUpdate string
  | FindByIdAndDelete string
  | MediaDelete medium string
  | MediaUpload medium string
  | ConsoleWarn string
  | ConsoleError string

datatype payload =
    NoPayload
  | ProjectList nat "project list"
  | ProjectDoc project
  | ValidationErrors errors
  | ErrorText string

record response =
  status :: nat
  success :: bool
  message :: string
  payload :: payload

definition respond :: "nat \<Rightarrow> bool \<Rightarrow> string \<Rightarrow> payload \<Rightarrow> response" where
  "respond st ok msg pl = \<lparr> status = st, success = ok, message = msg, payload = pl \<rparr>"

type_synonym result = "response \<times> project list \<times> event list"


text \<open>\<open>getProjects\<close>\<close>

definition getProjects :: "project list \<Rightarrow> result" where
  "getProjects store =
     (let projects = findSorted store
      in (respond 200 True [] (ProjectList (length projects) projects), store, [Find]))"

text \<open>\<open>getProject\<close>\<close>

definition getProject :: "env \<Rightarrow> project list \<Rightarrow> request \<Rightarrow> result" where
  "getProject e store req =
     (let i = paramsId req in
      if \<not> isValidObjectId e i
      then (respond 400 False ''Invalid project ID format'' NoPayload, store, [])
      else (case findById i store of
              None \<Rightarrow> (respond 404 False ''Project not found'' NoPayload, store, [FindById i])
            | Some p \<Rightarrow> (respond 200 True [] (ProjectDoc p), store, [FindById i])))"

text \<open>
  \<open>new Project(req.body)\<close> and \<open>project.save()\<close> with the answer of \<open>addProject\<close>: 201 and
  the document, or 400 with the validation errors from the \<open>catch\<close> block.
\<close>

definition saveProject :: "env \<Rightarrow> project list \<Rightarrow> body \<Rightarrow> event list \<Rightarrow> result" where
  "saveProject e store b evs =
     (case newProject (newObjectId e) (currentTime e) b of
        Inl errs \<Rightarrow>
          (respond 400 False ''Validation error'' (ValidationErrors errs), store,
           evs @ [Save, ConsoleError ''Error adding project:''])
      | Inr doc \<Rightarrow>
          (respond 201 True ''Project added successfully'' (ProjectDoc doc), store @ [doc],
           evs @ [Save]))"

text \<open>The names that differ between the video and the thumbnail blocks of the source.\<close>

fun urlKey :: "medium \<Rightarrow> string" where
  "urlKey Video = ''cloudinaryVideoUrl''"
| "urlKey Thumbnail = ''cloudinaryThumbnailUrl''"

fun publicIdKey :: "medium \<Rightarrow> string" where
  "publicIdKey Video = ''cloudinaryVideoPublicId''"
| "publicIdKey Thumbnail = ''cloudinaryThumbnailPublicId''"

fun removeKey :: "medium \<Rightarrow> string" where
  "removeKey Video = ''removeVideo''"
| "removeKey Thumbnail = ''removeThumbnail''"

fun mediumName :: "medium \<Rightarrow> string" where
  "mediumName Video = ''video''"
| "mediumName Thumbnail = ''thumbnail''"

fun storedPublicId :: "medium \<Rightarrow> project \<Rightarrow> string" where
  "storedPublicId Video p = cloudinaryVideoPublicId p"
| "storedPublicId Thumbnail p = cloudinaryThumbnailPublicId p"

fun storedUrl :: "medium \<Rightarrow> project \<Rightarrow> string" where
  "storedUrl Video p = cloudinaryVideoUrl p"
| "storedUrl Thumbnail p = cloudinaryThumbnailUrl p"

fun fileOf :: "medium \<Rightarrow> request \<Rightarrow> string option" where
  "fileOf Video req = videoFile req"
| "fileOf Thumbnail req = thumbnailFile req"

fun deleteFromCloudinary :: "env \<Rightarrow> medium \<Rightarrow> string \<Rightarrow> unit outcome" where
  "deleteFromCloudinary e Video pid = deleteVideoFromCloudinary e pid"
| "deleteFromCloudinary e Thumbnail pid = deleteImageFromCloudinary e pid"

fun uploadToCloudinary :: "env \<Rightarrow> medium \<Rightarrow> string \<Rightarrow> (string \<times> string) outcome" where
  "uploadToCloudinary e Video f = uploadVideoToCloudinary e f"
| "uploadToCloudinary e Thumbnail f = uploadImageToCloudinary e f"

text \<open>
  The upload block of a multipart request, in \<open>addProject\<close> and in the last branch of
  \<open>updateProject\<close>: on success the URL and the public id are written into the body, on
  failure the handler answers 500 at once.
\<close>

definition uploadFile ::
  "env \<Rightarrow> medium \<Rightarrow> string \<Rightarrow> project list \<Rightarrow> body \<Rightarrow> event list \<Rightarrow> result + body \<times> event list" where
  "uploadFile e m f store b evs =
     (case uploadToCloudinary e m f of
        Rejected msg \<Rightarrow>
          Inl (respond 500 False (''Error uploading '' @ mediumName m @ '' to Cloudinary'')
                 (ErrorText msg), store,
               evs @ [MediaUpload m f,
                      ConsoleError (''Error uploading '' @ mediumName m @ '' to Cloudinary:'')])
      | Resolved (url, pid) \<Rightarrow>
          Inr (AList.update (publicIdKey m) (JStr pid) (AList.update (urlKey m) (JStr url) b),
               evs @ [MediaUpload m f]))"

definition includesStr :: "string \<Rightarrow> string \<Rightarrow> bool" where
  "includesStr s part = sublist part s"

text \<open>\<open>addProject\<close>: the JSON path saves the body as it is; the multipart path uploads first.\<close>

definition addProject :: "env \<Rightarrow> project list \<Rightarrow> request \<Rightarrow> result" where
  "addProject e store req =
     (if includesStr (contentType req) ''application/json''
      then saveProject e store (normalizeBody (jsonParse e) (reqBody req)) []
      else
        (let b = normalizeBody (jsonParse e) (reqBody req);
             afterVideo = (case videoFile req of
                             Some f \<Rightarrow> uploadFile e Video f store b []
                           | None \<Rightarrow> Inr (b, []))
         in case afterVideo of
              Inl answer \<Rightarrow> answer
            | Inr (b1, evs1) \<Rightarrow>
                (let afterThumbnail = (case thumbnailFile req of
                                         Some f \<Rightarrow> uploadFile e Thumbnail f store b1 evs1
                                       | None \<Rightarrow> Inr (b1, evs1))
                 in case afterThumbnail of
                      Inl answer \<Rightarrow> answer
                    | Inr (b2, evs2) \<Rightarrow> saveProject e store b2 evs2)))"

text \<open>
  A call of a delete helper inside \<open>try\<close>/\<open>catch\<close>, as \<open>updateProject\<close> makes it: a
  rejection is written to the console and the handler goes on.
\<close>

definition tryDelete :: "env \<Rightarrow> medium \<Rightarrow> string \<Rightarrow> event list" where
  "tryDelete e m pid =
     (case deleteFromCloudinary e m pid of
        Resolved u \<Rightarrow> [MediaDelete m pid]
      | Rejected msg \<Rightarrow> [MediaDelete m pid, ConsoleWarn msg])"

text \<open>
  The block of \<open>updateProject\<close> for one medium, with its three branches in the order of
  the source: a URL and a public id in the body; a removal (the flag, or an empty URL);
  a file to upload.
\<close>

definition updateMedia ::
  "env \<Rightarrow> medium \<Rightarrow> project \<Rightarrow> request \<Rightarrow> project list \<Rightarrow> body \<Rightarrow> event list
     \<Rightarrow> result + body \<times> event list" where
  "updateMedia e m existingProject req store b evs =
     (let old = storedPublicId m existingProject in
      if truthyOpt (map_of b (urlKey m)) \<and> truthyOpt (map_of b (publicIdKey m)) then
        (if old \<noteq> [] \<and> Some (JStr old) \<noteq> map_of b (publicIdKey m)
         then Inr (b, evs @ tryDelete e m old)
         else Inr (b, evs))
      else if map_of b (removeKey m) = Some (JStr ''true'') \<or> map_of b (urlKey m) = Some (JStr [])
      then
        (if old \<noteq> []
         then Inr (AList.update (publicIdKey m) (JStr [])
                     (AList.update (urlKey m) (JStr []) b),
                   evs @ tryDelete e m old)
         else Inr (b, evs))
      else
        (case fileOf m req of
           Some f \<Rightarrow>
             uploadFile e m f store b (if old \<noteq> [] then evs @ tryDelete e m old else evs)
         | None \<Rightarrow> Inr (b, evs)))"

text \<open>\<open>updateProject\<close>\<close>

definition updateProject :: "env \<Rightarrow> project list \<Rightarrow> request \<Rightarrow> result" where
  "updateProject e store req =
     (let i = paramsId req in
      if \<not> isValidObjectId e i
      then (respond 400 False ''Invalid project ID format'' NoPayload, store, [])
      else
        (case findById i store of
           None \<Rightarrow> (respond 404 False ''Project not found'' NoPayload, store, [FindById i])
         | Some existingProject \<Rightarrow>
             (let b = normalizeBody (jsonParse e) (reqBody req) in
              case updateMedia e Video existingProject req store b [FindById i] of
                Inl answer \<Rightarrow> answer
              | Inr (b1, evs1) \<Rightarrow>
                  (case updateMedia e Thumbnail existingProject req store b1 evs1 of
                     Inl answer \<Rightarrow> answer
                   | Inr (b2, evs2) \<Rightarrow>
                       (case updatedProject existingProject b2 of
                          Inl errs \<Rightarrow>
                            (respond 400 False ''Validation error'' (ValidationErrors errs),
                             store,
                             evs2 @ [FindByIdAndUpdate i,
                                     ConsoleError ''Error updating project:''])
                        | Inr doc \<Rightarrow>
                            (respond 200 True ''Project updated successfully'' (ProjectDoc doc),
                             replaceById i doc store,
                             evs2 @ [FindByIdAndUpdate i]))))))"

text \<open>
  A call of a delete helper as \<open>deleteProject\<close> makes it, awaited with no \<open>try\<close> around
  it: a rejection leaves the handler through its outer \<open>catch\<close>, which answers 500.
\<close>

definition awaitDelete ::
  "env \<Rightarrow> medium \<Rightarrow> string \<Rightarrow> project list \<Rightarrow> event list \<Rightarrow> result + event list" where
  "awaitDelete e m pid store evs =
     (case deleteFromCloudinary e m pid of
        Resolved u \<Rightarrow> Inr (evs @ [MediaDelete m pid])
      | Rejected msg \<Rightarrow>
          Inl (respond 500 False ''Error deleting project'' (ErrorText msg), store,
               evs @ [MediaDelete m pid, ConsoleError ''Error deleting project:'']))"

text \<open>\<open>deleteProject\<close>\<close>

definition deleteProject :: "env \<Rightarrow> project list \<Rightarrow> request \<Rightarrow> result" where
  "deleteProject e store req =
     (let i = paramsId req in
      if \<not> isValidObjectId e i
      then (respond 400 False ''Invalid project ID format'' NoPayload, store, [])
      else
        (case findById i store of
           None \<Rightarrow> (respond 404 False ''Project not found'' NoPayload, store, [FindById i])
         | Some project \<Rightarrow>
             (let afterVideo =
                    (if cloudinaryVideoPublicId project \<noteq> []
                     then awaitDelete e Video (cloudinaryVideoPublicId project) store [FindById i]
                     else Inr [FindById i])
              in case afterVideo of
                   Inl answer \<Rightarrow> answer
                 | Inr evs1 \<Rightarrow>
                     (let afterThumbnail =
                            (if cloudinaryThumbnailPublicId project \<noteq> []
                             then awaitDelete e Thumbnail (cloudinaryThumbnailPublicId project)
                                    store evs1
                             else Inr evs1)
                      in case afterThumbnail of
                           Inl answer \<Rightarrow> answer
                         | Inr evs2 \<Rightarrow>
                             (respond 200 True ''Project deleted successfully''
                                (ProjectDoc project),
                              findByIdAndDelete i store,
                              evs2 @ [FindByIdAndDelete i])))))"


section \<open>Login\<close>

text \<open>
  The fields of a user document that \<open>loginUser\<close> reads (the User model is not among
  the sources).
\<close>

record user =
  userId :: string
  username :: string
  password :: string
  profilePicLink :: string

text \<open>
  A variable of \<open>process.env\<close> is \<open>None\<close> when it is not set; it is configured when it
  is set and not empty (the truthiness of its value).
\<close>

definition configured :: "string option \<Rightarrow> bool" where
  "configured v = (case v of None \<Rightarrow> False | Some s \<Rightarrow> s \<noteq> [])"

text \<open>
  \<open>jwt.sign(payload, secret, options)\<close> belongs to a library; its result is kept as
  what went into it: the id and username of the payload, the secret, the time span. Called with a secret that is not set or empty it throws
  (\<open>secretOrPrivateKey must have a value\<close>).
\<close>

record token =
  tokenId :: string
  tokenUsername :: string
  tokenSecret :: string
  expiresIn :: string

definition jwtSign :: "string \<times> string \<Rightarrow> string option \<Rightarrow> string \<Rightarrow> token outcome" where
  "jwtSign claims secret span =
     (case secret of
        None \<Rightarrow> Rejected ''secretOrPrivateKey must have a value''
      | Some s \<Rightarrow>
          if s = [] then Rejected ''secretOrPrivateKey must have a value''
          else Resolved \<lparr> tokenId = fst claims, tokenUsername = snd claims,
                          tokenSecret = s, expiresIn = span \<rparr>)"

text \<open>
  The time spans of the signing option, as the library reads them: decimal digits and a
  unit letter, in seconds.
\<close>

definition spanSeconds :: "string \<Rightarrow> nat option" where
  "spanSeconds sp =
     (let ds = takeWhile isDigit sp; unit = dropWhile isDigit sp
      in if ds = [] then None
         else if unit = ''s'' then Some (parseInt ds)
         else if unit = ''m'' then Some (parseInt ds * 60)
         else if unit = ''h'' then Some (parseInt ds * 60 * 60)
         else if unit = ''d'' then Some (parseInt ds * 24 * 60 * 60)
         else None)"

record cookie =
  cookieName :: string
  cookieValue :: token
  httpOnly :: bool
  secure :: bool
  sameSite :: string
  maxAge :: nat
  cookiePath :: string

record loginRequest =
  reqUsername :: string
  reqPassword :: string
  reqSecure :: bool
  forwardedProto :: "string option"

text \<open>\<open>process.env.SECRET_KEY\<close> and \<open>process.env.NODE_ENV\<close>.\<close>

record loginEnv =
  secretKey :: "string option"
  nodeEnv :: "string option"

record loginResponse =
  loginStatus :: nat
  loginMessage :: string
  loginUserEcho :: "(string \<times> string) option"
  cookiesSet :: "cookie list"

text \<open>
  \<open>User.findOne({ username })\<close>, on the user collection as the list of its documents;
  the collection can always be read.
\<close>

definition findOneByUsername :: "string \<Rightarrow> user list \<Rightarrow> user option" where
  "findOneByUsername name users = find (\<lambda>u. username u = name) users"

text \<open>
  \<open>loginUser\<close>. The body of the handler is one \<open>try\<close> block: when \<open>jwt.sign\<close> throws,
  the \<open>catch\<close> answers 500 and no cookie has been set.
\<close>

definition loginUser :: "loginEnv \<Rightarrow> user list \<Rightarrow> loginRequest \<Rightarrow> loginResponse" where
  "loginUser e users req =
     (case findOneByUsername (reqUsername req) users of
        None \<Rightarrow>
          \<lparr> loginStatus = 404, loginMessage = ''User not found'', loginUserEcho = None,
            cookiesSet = [] \<rparr>
      | Some u \<Rightarrow>
          if password u \<noteq> reqPassword req
          then \<lparr> loginStatus = 401, loginMessage = ''Invalid credentials'',
                 loginUserEcho = None, cookiesSet = [] \<rparr>
          else
            (case jwtSign (userId u, username u) (secretKey e) ''1d'' of
               Rejected msg \<Rightarrow>
                 \<lparr> loginStatus = 500, loginMessage = ''Server error'', loginUserEcho = None,
                   cookiesSet = [] \<rparr>
             | Resolved tok \<Rightarrow>
                 (let isProduction = (nodeEnv e = Some ''production'' \<or> reqSecure req
                                      \<or> forwardedProto req = Some ''https'')
                  in \<lparr> loginStatus = 200, loginMessage = ''Login successful'',
                       loginUserEcho = Some (username u, profilePicLink u),
                       cookiesSet =
                         [\<lparr> cookieName = ''token'', cookieValue = tok, httpOnly = True,
                            secure = isProduction,
                            sameSite = (if isProduction then ''None'' else ''Lax''),
                            maxAge = 24 * 60 * 60 * 1000, cookiePath = ''/'' \<rparr>] \<rparr>)))"

section \<open>Upload signature\<close>

text \<open>The three credentials of \<open>process.env\<close>; a variable that is not set is \<open>None\<close>.\<close>

record cloudEnv =
  apiSecret :: "string option"
  apiKey :: "string option"
  cloudNameVar :: "string option"

text \<open>
  The \<open>params\<close> object that the handler builds and signs: the trimmed folder when
  \<open>folder && folder.trim()\<close> is truthy, then the timestamp. A truthy folder that is
  not a string has no \<open>trim\<close>, and the call throws: \<open>None\<close>.
  \<open>String.prototype.trim\<close> is the language's own function and is a parameter of the
  model, \<open>trim\<close>, with nothing assumed of it.
\<close>

definition signatureParams ::
  "(string \<Rightarrow> string) \<Rightarrow> jsval option \<Rightarrow> nat \<Rightarrow> (string \<times> jsval) list option" where
  "signatureParams trim folder ts =
     (if truthyOpt folder
      then (case folder of
              Some (JStr f) \<Rightarrow>
                Some ((if trim f \<noteq> [] then [(''folder'', JStr (trim f))] else [])
                      @ [(''timestamp'', JNum (int ts))])
            | other \<Rightarrow> None)
      else Some [(''timestamp'', JNum (int ts))])"

record signedUpload =
  signature :: string
  timestamp :: nat
  folder :: string
  resource_type :: jsval
  api_key :: string
  cloud_name :: string

datatype signatureResponse =
    Signed signedUpload
  | ServerError nat string

text \<open>
  The handler of \<open>POST /api/cloudinary-signature\<close>. \<open>sign\<close> is the media library's
  \<open>api_sign_request\<close>, \<open>trim\<close> the language's \<open>String.prototype.trim\<close>, \<open>nowMs\<close> the clock
  in milliseconds.
\<close>

definition cloudinarySignature ::
  "((string \<times> jsval) list \<Rightarrow> string \<Rightarrow> string) \<Rightarrow> (string \<Rightarrow> string) \<Rightarrow> cloudEnv \<Rightarrow> nat \<Rightarrow> body
     \<Rightarrow> signatureResponse" where
  "cloudinarySignature sign trim e nowMs b =
     (let folderArg = map_of b ''folder'';
          resourceType = (case map_of b ''resource_type'' of None \<Rightarrow> JStr ''auto'' | Some v \<Rightarrow> v)
      in if \<not> configured (apiSecret e) \<or> \<not> configured (apiKey e) \<or> \<not> configured (cloudNameVar e)
         then ServerError 500 ''Cloudinary credentials not configured on server.''
         else
           (let ts = (nowMs + 500) div 1000
            in case signatureParams trim folderArg ts of
                 None \<Rightarrow> ServerError 500 ''Failed to generate upload signature''
               | Some params \<Rightarrow>
                   Signed \<lparr> signature = sign params (the (apiSecret e)),
                            timestamp = ts,
                            folder = (case map_of params ''folder'' of
                                        Some (JStr f) \<Rightarrow> f | other \<Rightarrow> []),
                            resource_type =
                              (if truthy resourceType then resourceType else JStr ''auto''),
                            api_key = the (apiKey e),
                            cloud_name = the (cloudNameVar e) \<rparr>))"

section \<open>Throttle\<close>

text \<open>
  The closure of \<open>throttle(func, limit)\<close>: its four variables, and around it the timers
  that are pending (identifier and delay), the next timer identifier (identifiers are
  positive), and the calls of \<open>func\<close> made so far, each with its \<open>this\<close> and arguments.
\<close>

record ('t, 'a) throttle =
  lastCall :: int
  lastArgs :: "'a option"
  lastThis :: "'t option"
  timeoutId :: "nat option"
  timers :: "(nat \<times> int) list"
  nextTimer :: nat
  invoked :: "('t option \<times> 'a option) list"

definition throttleInit :: "('t, 'a) throttle" where
  "throttleInit =
     \<lparr> lastCall = 0, lastArgs = None, lastThis = None, timeoutId = None, timers = [],
       nextTimer = 1, invoked = [] \<rparr>"

text \<open>The truthiness of \<open>timeoutId\<close>: \<open>null\<close> and \<open>0\<close> are falsy.\<close>

definition timerSet :: "nat option \<Rightarrow> bool" where
  "timerSet t = (case t of None \<Rightarrow> False | Some n \<Rightarrow> n \<noteq> 0)"

definition clearTimeout :: "nat option \<Rightarrow> (nat \<times> int) list \<Rightarrow> (nat \<times> int) list" where
  "clearTimeout t ts = (case t of None \<Rightarrow> ts | Some n \<Rightarrow> filter (\<lambda>p. fst p \<noteq> n) ts)"

text \<open>\<open>later\<close>, the function handed to \<open>setTimeout\<close>, run at time \<open>now\<close>.\<close>

definition later :: "int \<Rightarrow> ('t, 'a) throttle \<Rightarrow> ('t, 'a) throttle" where
  "later now s =
     s\<lparr> lastCall := now, timeoutId := None,
        invoked := invoked s @ [(lastThis s, lastArgs s)] \<rparr>"

text \<open>\<open>throttled\<close>, called at time \<open>now\<close> with \<open>this\<close> and its arguments.\<close>

definition throttled :: "int \<Rightarrow> int \<Rightarrow> 't \<Rightarrow> 'a \<Rightarrow> ('t, 'a) throttle \<Rightarrow> ('t, 'a) throttle" where
  "throttled limit now this args s0 =
     (let remaining = limit - (now - lastCall s0);
          s = s0\<lparr> lastArgs := Some args, lastThis := Some this \<rparr>
      in if remaining \<le> 0 \<or> remaining > limit then
           (let s1 = (if timerSet (timeoutId s)
                      then s\<lparr> timers := clearTimeout (timeoutId s) (timers s),
                              timeoutId := None \<rparr>
                      else s)
            in s1\<lparr> lastCall := now, invoked := invoked s1 @ [(lastThis s1, lastArgs s1)] \<rparr>)
         else if \<not> timerSet (timeoutId s) then
           s\<lparr> timeoutId := Some (nextTimer s),
              timers := timers s @ [(nextTimer s, remaining)],
              nextTimer := Suc (nextTimer s) \<rparr>
         else s)"

text \<open>
  What happens to the closure: a call, or the run time firing a timer. A timer fires
  only while it is pending, and is gone once it has fired.
\<close>

datatype ('t, 'a) occurrence = Call int 't 'a | Fire nat int

fun occur :: "int \<Rightarrow> ('t, 'a) occurrence \<Rightarrow> ('t, 'a) throttle \<Rightarrow> ('t, 'a) throttle" where
  "occur limit (Call now this args) s = throttled limit now this args s"
| "occur limit (Fire tid now) s =
     (if tid \<in> fst ` set (timers s)
      then later now (s\<lparr> timers := filter (\<lambda>p. fst p \<noteq> tid) (timers s) \<rparr>)
      else s)"

definition runThrottle :: "int \<Rightarrow> ('t, 'a) occurrence list \<Rightarrow> ('t, 'a) throttle" where
  "runThrottle limit os = fold (occur limit) os throttleInit"

text \<open>The \<open>this\<close> and arguments of the most recent call among the occurrences.\<close>

definition mostRecentCall :: "('t, 'a) occurrence list \<Rightarrow> 't option \<times> 'a option" where
  "mostRecentCall os =
     fold (\<lambda>oc r. case oc of Call now this args \<Rightarrow> (Some this, Some args) | Fire tid now \<Rightarrow> r)
       os (None, None)"

section \<open>Notions used in the proofs\<close>

text \<open>One assignment \<open>a[i] = v\<close> for an indexed entry.\<close>

definition assignEntry :: "nat \<times> jsval \<Rightarrow> jsarray \<Rightarrow> jsarray" where
  "assignEntry e a = arrayAssign (fst e) (snd e) a"

text \<open>The representation invariant of an array with holes: indices strictly ascending.\<close>

definition ascending :: "jsarray \<Rightarrow> bool" where
  "ascending a = sorted_wrt (<) (map fst a)"

text \<open>The three parts of what a handler gives.\<close>

definition answerOf :: "result \<Rightarrow> response" where
  "answerOf r = fst r"

definition storeOf :: "result \<Rightarrow> project list" where
  "storeOf r = fst (snd r)"

definition eventsOf :: "result \<Rightarrow> event list" where
  "eventsOf r = snd (snd r)"

text \<open>The public ids of the delete calls issued for one medium, in order.\<close>

fun deleteCalls :: "medium \<Rightarrow> event list \<Rightarrow> string list" where
  "deleteCalls m [] = []"
| "deleteCalls m (MediaDelete m' pid # evs) =
     (if m' = m then pid # deleteCalls m evs else deleteCalls m evs)"
| "deleteCalls m (ev # evs) = deleteCalls m evs"

text \<open>The pairing of a medium's URL with its public id: both empty or both set.\<close>

definition pairedFor :: "medium \<Rightarrow> project \<Rightarrow> bool" where
  "pairedFor m p = ((storedUrl m p = []) = (storedPublicId m p = []))"

definition paired :: "project \<Rightarrow> bool" where
  "paired p = (pairedFor Video p \<and> pairedFor Thumbnail p)"

text \<open>
  A body that supplies a medium's URL and public id together: both as strings, empty
  or not alike; or an empty URL alone; or neither key.
\<close>

definition suppliesTogether :: "body \<Rightarrow> medium \<Rightarrow> bool" where
  "suppliesTogether b m =
     (case map_of b (urlKey m) of
        None \<Rightarrow> map_of b (publicIdKey m) = None
      | Some (JStr u) \<Rightarrow>
          (case map_of b (publicIdKey m) of
             None \<Rightarrow> u = []
           | Some (JStr p) \<Rightarrow> (u = []) = (p = [])
           | Some other \<Rightarrow> False)
      | Some other \<Rightarrow> False)"

text \<open>An upload of the request's file for a medium that gives a URL and a public id alike.\<close>

definition uploadsTogether :: "env \<Rightarrow> request \<Rightarrow> medium \<Rightarrow> bool" where
  "uploadsTogether e req m =
     (case fileOf m req of
        None \<Rightarrow> True
      | Some f \<Rightarrow>
          (case uploadToCloudinary e m f of
             Resolved r \<Rightarrow> (fst r = []) = (snd r = [])
           | Rejected msg \<Rightarrow> True))"

text \<open>
  The pairing of a medium in the document that results from writing the body values
  \<open>bu\<close> (URL) and \<open>bp\<close> (public id) over a document.
\<close>

definition pairedAfter :: "medium \<Rightarrow> project \<Rightarrow> jsval option \<Rightarrow> jsval option \<Rightarrow> bool" where
  "pairedAfter m p bu bp =
     ((fieldValue (storedUrl m p) (castString bu) = [])
      = (fieldValue (storedPublicId m p) (castString bp) = []))"

text \<open>
  A \<open>folder\<close> argument that the signature handler can work with: a string, or a value
  that is falsy (absent, \<open>null\<close>, ...). The folder that is then signed and returned: the
  trimmed string, or the empty string for no folder (an empty string is falsy and is
  not trimmed).
\<close>

definition folderUsable :: "jsval option \<Rightarrow> bool" where
  "folderUsable fo = (case fo of Some (JStr f) \<Rightarrow> True | other \<Rightarrow> \<not> truthyOpt other)"

definition signedFolder :: "(string \<Rightarrow> string) \<Rightarrow> jsval option \<Rightarrow> string" where
  "signedFolder trim fo =
     (case fo of Some (JStr f) \<Rightarrow> if f = [] then [] else trim f | other \<Rightarrow> [])"

text \<open>
  What keeps the timers of a throttled function in step with its \<open>timeoutId\<close>: the
  identifier is positive and names the one pending timer, or there is none.
\<close>

definition timerInvariant :: "('t, 'a) throttle \<Rightarrow> bool" where
  "timerInvariant s =
     (nextTimer s \<noteq> 0 \<and>
      (case timeoutId s of
         None \<Rightarrow> timers s = []
       | Some i \<Rightarrow> i \<noteq> 0 \<and> (\<exists>d. timers s = [(i, d)])))"

section \<open>Example inputs\<close>

text \<open>
  A stand-in for \<open>JSON.parse\<close> on the inputs of the examples: it knows the parse of one
  text and throws on every other, the empty text among them.
\<close>

definition exampleParse :: "string \<Rightarrow> jsval option" where
  \<open>exampleParse = map_of [(''["x","y"]'', JArr [JStr ''x'', JStr ''y''])]\<close>

text \<open>\<open>features[1]=a\<close> before \<open>features[0]=b\<close>, and \<open>tools\<close> as one string.\<close>

definition indexedBody :: body where
  \<open>indexedBody =
     [(''features[1]'', JStr ''a''), (''title'', JStr ''t''), (''features[0]'', JStr ''b''),
      (''tools'', JStr ''["x","y"]'')]\<close>

definition indexedBodyReordered :: body where
  \<open>indexedBodyReordered =
     [(''tools'', JStr ''["x","y"]''), (''features[0]'', JStr ''b''), (''title'', JStr ''t''),
      (''features[1]'', JStr ''a'')]\<close>

text \<open>Indexed entries with falsy values: an empty string and \<open>null\<close>.\<close>

definition falsyEntriesBody :: body where
  "falsyEntriesBody =
     [(''features[0]'', JStr []), (''features[1]'', JStr ''a''),
      (''tools[0]'', JNull), (''tools[2]'', JStr ''x'')]"

text \<open>
  An environment for the examples: identifiers are the strings of 24 hexadecimal
  digits, and every call to the media store resolves.
\<close>

definition hexObjectId :: "string \<Rightarrow> bool" where
  "hexObjectId s = (length s = 24 \<and> list_all (\<lambda>c. c \<in> set ''0123456789abcdefABCDEF'') s)"

definition exampleEnv :: env where
  "exampleEnv =
     \<lparr> isValidObjectId = hexObjectId, jsonParse = exampleParse,
       deleteVideoFromCloudinary = (\<lambda>pid. Resolved ()),
       deleteImageFromCloudinary = (\<lambda>pid. Resolved ()),
       uploadVideoToCloudinary = (\<lambda>f. Resolved (''https://media/video'', ''video1'')),
       uploadImageToCloudinary = (\<lambda>f. Resolved (''https://media/image'', ''image1'')),
       newObjectId = ''507f1f77bcf86cd799439012'', currentTime = 20 \<rparr>"

text \<open>The same environment with a media store whose video deletion rejects.\<close>

definition failingEnv :: env where
  "failingEnv = exampleEnv\<lparr> deleteVideoFromCloudinary := (\<lambda>pid. Rejected ''media store unreachable'') \<rparr>"

text \<open>A stored project with a video, one without media, and requests on them.\<close>

definition projectWithVideo :: project where
  "projectWithVideo =
     (blankProject ''507f1f77bcf86cd799439011'' 10)
       \<lparr> title := ''Portfolio'', description := ''A site'',
         cloudinaryVideoUrl := ''https://media/old'', cloudinaryVideoPublicId := ''old'' \<rparr>"

definition projectWithoutMedia :: project where
  "projectWithoutMedia =
     (blankProject ''507f1f77bcf86cd799439010'' 5)
       \<lparr> title := ''Blog'', description := ''A blog'' \<rparr>"

definition exampleStore :: "project list" where
  "exampleStore = [projectWithoutMedia, projectWithVideo]"

definition requestFor :: "string \<Rightarrow> body \<Rightarrow> request" where
  "requestFor i b =
     \<lparr> paramsId = i, contentType = ''application/json'', reqBody = b,
       videoFile = None, thumbnailFile = None \<rparr>"

text \<open>
  Updates of the project with a video: one that replaces the video and adds a
  thumbnail, and one that sends the stored pair again. An update that gives the
  project without media its first video.
\<close>

definition replaceVideoRequest :: request where
  "replaceVideoRequest =
     requestFor ''507f1f77bcf86cd799439011''
       [(''cloudinaryVideoUrl'', JStr ''https://media/new''),
        (''cloudinaryVideoPublicId'', JStr ''new''),
        (''cloudinaryThumbnailUrl'', JStr ''https://media/thumb''),
        (''cloudinaryThumbnailPublicId'', JStr ''thumb1'')]"

definition sameVideoRequest :: request where
  "sameVideoRequest =
     requestFor ''507f1f77bcf86cd799439011''
       [(''cloudinaryVideoUrl'', JStr ''https://media/old''),
        (''cloudinaryVideoPublicId'', JStr ''old'')]"

definition firstVideoRequest :: request where
  "firstVideoRequest =
     requestFor ''507f1f77bcf86cd799439010''
       [(''cloudinaryVideoUrl'', JStr ''https://media/new''),
        (''cloudinaryVideoPublicId'', JStr ''new'')]"

text \<open>A new project whose body has a video URL and no public id.\<close>

definition urlOnlyRequest :: request where
  "urlOnlyRequest =
     requestFor []
       [(''title'', JStr ''Shop''), (''description'', JStr ''A shop''),
        (''cloudinaryVideoUrl'', JStr ''https://media/new'')]"

text \<open>A new project with both media, each with its public id.\<close>

definition bothMediaRequest :: request where
  "bothMediaRequest =
     requestFor []
       [(''title'', JStr ''Shop''), (''description'', JStr ''A shop''),
        (''cloudinaryVideoUrl'', JStr ''https://media/new''),
        (''cloudinaryVideoPublicId'', JStr ''new''),
        (''cloudinaryThumbnailUrl'', JStr ''https://media/thumb''),
        (''cloudinaryThumbnailPublicId'', JStr ''thumb1'')]"

text \<open>The one user of the site, and three login requests.\<close>

definition adminUser :: user where
  "adminUser =
     \<lparr> userId = ''u1'', username = ''admin'', password = ''s3cret'',
       profilePicLink = ''https://pics/admin.png'' \<rparr>"

definition loginWith :: "string \<Rightarrow> string \<Rightarrow> loginRequest" where
  "loginWith name pw =
     \<lparr> reqUsername = name, reqPassword = pw, reqSecure = False, forwardedProto = None \<rparr>"

definition devEnv :: loginEnv where
  "devEnv = \<lparr> secretKey = Some ''signing-secret'', nodeEnv = None \<rparr>"

text \<open>
  An environment set up as the README says, with \<open>JWT_SECRET\<close>: the variable that
  \<open>loginUser\<close> reads, \<open>SECRET_KEY\<close>, is not set.
\<close>

definition readmeEnv :: loginEnv where
  "readmeEnv = \<lparr> secretKey = None, nodeEnv = None \<rparr>"

text \<open>Credentials of the media store, all set and with the key missing; a signing function.\<close>

definition cloudConfigured :: cloudEnv where
  "cloudConfigured =
     \<lparr> apiSecret = Some ''cloud-secret'', apiKey = Some ''cloud-key'',
       cloudNameVar = Some ''cloud-name'' \<rparr>"

definition cloudWithoutKey :: cloudEnv where
  "cloudWithoutKey = cloudConfigured\<lparr> apiKey := None \<rparr>"

definition exampleSign :: "(string \<times> jsval) list \<Rightarrow> string \<Rightarrow> string" where
  "exampleSign params secret = concat (map fst params) @ secret"

definition signatureBody :: body where
  "signatureBody = [(''folder'', JStr '' project-videos ''), (''resource_type'', JStr ''video'')]"

text \<open>
  A stand-in for \<open>String.prototype.trim\<close> on the inputs of the examples, whose
  characters are code points below 256: there the white space of the language is tab,
  line feed, vertical tab, form feed, carriage return, space and the no-break space.
\<close>

definition exampleWhiteSpace :: "char \<Rightarrow> bool" where
  "exampleWhiteSpace c = ((of_char c :: nat) \<in> {9, 10, 11, 12, 13, 32, 160})"

definition exampleTrim :: "string \<Rightarrow> string" where
  "exampleTrim s = rev (dropWhile exampleWhiteSpace (rev (dropWhile exampleWhiteSpace s)))"

text \<open>A folder of white space only: a space and a no-break space.\<close>

definition blankFolderBody :: body where
  "blankFolderBody = [(''folder'', JStr [CHR '' '', CHR 0xA0])]"

text \<open>
  Calls of a throttled function with a limit of 100 ms: a first call, a second one 10 ms
  later, the timer of the second firing, and a call long after.
\<close>

definition throttleStart :: "(string, nat) occurrence list" where
  "throttleStart = [Call 1000 ''window'' 1, Call 1010 ''window'' 2, Fire 1 1100]"

text \<open>
  A stored project with a thumbnail, and a multipart update of it that brings a video
  file together with a new thumbnail pair, in an environment where the upload of the
  video rejects.
\<close>

definition projectWithThumbnail :: project where
  "projectWithThumbnail =
     (blankProject ''507f1f77bcf86cd799439013'' 15)
       \<lparr> title := ''Game'', description := ''A game'',
         cloudinaryThumbnailUrl := ''https://media/thumb0'',
         cloudinaryThumbnailPublicId := ''thumb0'' \<rparr>"

definition uploadFailingEnv :: env where
  "uploadFailingEnv = exampleEnv\<lparr> uploadVideoToCloudinary := (\<lambda>f. Rejected ''upload failed'') \<rparr>"

definition videoFileRequest :: request where
  "videoFileRequest =
     \<lparr> paramsId = ''507f1f77bcf86cd799439013'', contentType = ''multipart/form-data'',
       reqBody = [(''cloudinaryThumbnailUrl'', JStr ''https://media/thumb1''),
                  (''cloudinaryThumbnailPublicId'', JStr ''thumb1'')],
       videoFile = Some ''video-bytes'', thumbnailFile = None \<rparr>"

section \<open>Properties of the reconstruction\<close>

lemma features_not_tools: "startsWith k ''features['' \<Longrightarrow> \<not> startsWith k ''tools[''"
  by (auto simp: startsWith_def prefix_def)

lemma indexedEntries_Cons:
  "indexedEntries pre ((k, v) # b) =
     (if startsWith k pre \<and> matchIndex k \<noteq> None
      then (parseInt (the (matchIndex k)), v) # indexedEntries pre b
      else indexedEntries pre b)"
  by (simp add: indexedEntries_def)

lemma indexedEntries_Nil: "indexedEntries pre [] = []"
  by (simp add: indexedEntries_def)

lemma collect_features:
  "fst (fold collectKey b (fs, ts, bd)) = fold assignEntry (indexedEntries ''features['' b) fs"
proof (induction b arbitrary: fs ts bd)
  case Nil
  show ?case by (simp add: indexedEntries_Nil)
next
  case (Cons e b)
  obtain k v where e: "e = (k, v)" by (cases e)
  show ?case
    unfolding e
    by (cases "matchIndex k")
       (simp_all add: indexedEntries_Cons Cons.IH assignEntry_def)
qed

lemma collect_tools:
  "fst (snd (fold collectKey b (fs, ts, bd))) = fold assignEntry (indexedEntries ''tools['' b) ts"
proof (induction b arbitrary: fs ts bd)
  case Nil
  show ?case by (simp add: indexedEntries_Nil)
next
  case (Cons e b)
  obtain k v where e: "e = (k, v)" by (cases e)
  show ?case
    unfolding e
    by (cases "matchIndex k"; cases "startsWith k ''features[''")
       (simp_all add: indexedEntries_Cons Cons.IH assignEntry_def features_not_tools)
qed

lemma collect_body:
  "\<not> startsWith k ''features['' \<Longrightarrow> \<not> startsWith k ''tools['' \<Longrightarrow>
   map_of (snd (snd (fold collectKey b (fs, ts, bd)))) k = map_of bd k"
proof (induction b arbitrary: fs ts bd)
  case Nil
  show ?case by simp
next
  case (Cons e b)
  obtain k' v where e: "e = (k', v)" by (cases e)
  have ne: "startsWith k' ''features['' \<or> startsWith k' ''tools['' \<Longrightarrow> k \<noteq> k'"
    using Cons.prems by auto
  show ?case
    unfolding e using ne
    by (cases "matchIndex k'")
       (auto simp: Cons.IH [OF Cons.prems])
qed

lemma set_arraySet_subset: "fst ` set (arraySet i v a) = insert i (fst ` set a)"
  by (induction i v a rule: arraySet.induct) (simp_all add: insert_commute)

lemma ascending_arraySet: "ascending a \<Longrightarrow> ascending (arraySet i v a)"
proof (induction a)
  case Nil
  show ?case by (simp add: ascending_def)
next
  case (Cons p a)
  obtain j w where p: "p = (j, w)" by (cases p)
  from Cons.prems have asc: "ascending a" and lt: "\<forall>x \<in> fst ` set a. j < x"
    by (auto simp: ascending_def p)
  have "\<forall>x \<in> fst ` set (arraySet i v a). j < x" if "j < i"
    using lt that by (simp add: set_arraySet_subset)
  then show ?case
    using Cons.prems Cons.IH [OF asc] by (auto simp: ascending_def p)
qed

lemma set_arraySet_fresh:
  "i \<notin> fst ` set a \<Longrightarrow> set (arraySet i v a) = insert (i, v) (set a)"
  by (induction a) (auto split: if_splits)

lemma fold_assign_ascending:
  "ascending a \<Longrightarrow> ascending (fold assignEntry es a)"
  by (induction es arbitrary: a)
     (simp_all add: assignEntry_def arrayAssign_def ascending_arraySet)

lemma fold_assign_set:
  "distinct (map fst es) \<Longrightarrow> \<forall>i \<in> set (map fst es). i < 4294967295 \<Longrightarrow>
   fst ` set a \<inter> set (map fst es) = {} \<Longrightarrow>
   set (fold assignEntry es a) = set a \<union> set es"
proof (induction es arbitrary: a)
  case Nil
  show ?case by simp
next
  case (Cons e es)
  have fresh: "fst e \<notin> fst ` set a" using Cons.prems(3) by auto
  have step: "assignEntry e a = arraySet (fst e) (snd e) a"
    using Cons.prems(2) by (simp add: assignEntry_def arrayAssign_def)
  have s: "set (assignEntry e a) = insert e (set a)"
    by (simp add: step set_arraySet_fresh [OF fresh])
  have disj: "fst ` set (assignEntry e a) \<inter> set (map fst es) = {}"
    using Cons.prems(1,3) by (auto simp: s)
  have "set (fold assignEntry es (assignEntry e a)) = set (assignEntry e a) \<union> set es"
    using Cons.prems(1,2) disj by (intro Cons.IH) auto
  then show ?case by (auto simp: s)
qed

lemma fold_assign_sort:
  assumes "distinct (map fst es)" "\<forall>i \<in> set (map fst es). i < 4294967295"
  shows "fold assignEntry es [] = sort_key fst es"
proof (rule map_sorted_distinct_set_unique [where f = fst])
  have asc: "ascending (fold assignEntry es [])"
    by (rule fold_assign_ascending) (simp add: ascending_def)
  have st: "set (fold assignEntry es []) = set es"
    using fold_assign_set [OF assms, of "[]"] by simp
  show "inj_on fst (set (fold assignEntry es []) \<union> set (sort_key fst es))"
    using assms(1) by (simp add: st distinct_map)
  show "sorted (map fst (fold assignEntry es []))"
    using asc by (simp add: ascending_def strict_sorted_iff)
  show "distinct (map fst (fold assignEntry es []))"
    using asc by (simp add: ascending_def strict_sorted_iff)
  show "sorted (map fst (sort_key fst es))" by simp
  show "distinct (map fst (sort_key fst es))" using assms(1) by (simp add: distinct_map)
  show "set (fold assignEntry es []) = set (sort_key fst es)" by (simp add: st)
qed



lemma indexedEntries_update:
  "\<not> startsWith k pre \<Longrightarrow> indexedEntries pre (AList.update k v b) = indexedEntries pre b"
  by (induction b) (auto simp: indexedEntries_Cons indexedEntries_Nil)

lemma indexedEntries_parse:
  "\<not> startsWith k pre \<Longrightarrow> indexedEntries pre (parseArrayField parse k b) = indexedEntries pre b"
  by (simp add: parseArrayField_def indexedEntries_update split: option.splits jsval.splits)

lemma not_pre_features [simp]:
  "\<not> startsWith ''features'' ''features[''" "\<not> startsWith ''features'' ''tools[''"
  "\<not> startsWith ''tools'' ''features[''" "\<not> startsWith ''tools'' ''tools[''"
  by (simp_all add: startsWith_def)

lemma map_of_parse_other:
  "k' \<noteq> k \<Longrightarrow> map_of (parseArrayField parse k b) k' = map_of b k'"
  by (simp add: parseArrayField_def update_conv' split: option.splits jsval.splits)

lemma map_of_parse_same:
  "map_of (parseArrayField parse k b) k =
     (case map_of b k of
        Some (JStr s) \<Rightarrow> if s \<noteq> [] then Some (fallbackParse parse s) else Some (JStr s)
      | other \<Rightarrow> other)"
  by (simp add: parseArrayField_def update_conv' split: option.splits jsval.splits)

lemma arrayLength_pos: "(0 < arrayLength a) = (a \<noteq> [])"
  by (simp add: arrayLength_def)

lemma normalizeBody_features:
  "map_of (normalizeBody parse b) ''features'' =
     (let fs = fold assignEntry (indexedEntries ''features['' b) []
      in if fs \<noteq> [] then Some (JArr (filterBoolean fs))
         else map_of (parseArrayField parse ''features'' b) ''features'')"
proof -
  define b2 where "b2 = parseArrayField parse ''tools'' (parseArrayField parse ''features'' b)"
  obtain fs ts b3 where f: "fold collectKey b2 ([], [], b2) = (fs, ts, b3)"
    by (cases "fold collectKey b2 ([], [], b2)")
  have fs: "fs = fold assignEntry (indexedEntries ''features['' b) []"
    using collect_features [of b2 "[]" "[]" b2] unfolding f by (simp add: b2_def indexedEntries_parse)
  have b3: "map_of b3 ''features'' = map_of (parseArrayField parse ''features'' b) ''features''"
    using collect_body [of "''features''" b2 "[]" "[]" b2] unfolding f
    by (simp add: b2_def map_of_parse_other)
  have "normalizeBody parse b =
     (let b4 = (if arrayLength fs > 0
                then AList.update ''features'' (JArr (filterBoolean fs)) b3 else b3)
      in if arrayLength ts > 0 then AList.update ''tools'' (JArr (filterBoolean ts)) b4 else b4)"
    by (simp add: normalizeBody_def Let_def f flip: b2_def)
  then show ?thesis
    by (simp add: Let_def update_conv' arrayLength_pos b3 flip: fs)
qed

lemma normalizeBody_tools:
  "map_of (normalizeBody parse b) ''tools'' =
     (let ts = fold assignEntry (indexedEntries ''tools['' b) []
      in if ts \<noteq> [] then Some (JArr (filterBoolean ts))
         else map_of (parseArrayField parse ''tools'' b) ''tools'')"
proof -
  define b1 where "b1 = parseArrayField parse ''features'' b"
  define b2 where "b2 = parseArrayField parse ''tools'' b1"
  obtain fs ts b3 where f: "fold collectKey b2 ([], [], b2) = (fs, ts, b3)"
    by (cases "fold collectKey b2 ([], [], b2)")
  have ts: "ts = fold assignEntry (indexedEntries ''tools['' b) []"
    using collect_tools [of b2 "[]" "[]" b2] unfolding f by (simp add: b2_def b1_def indexedEntries_parse)
  have "map_of b2 ''tools'' = map_of (parseArrayField parse ''tools'' b) ''tools''"
    by (simp add: b2_def b1_def map_of_parse_same map_of_parse_other)
  then have b3: "map_of b3 ''tools'' = map_of (parseArrayField parse ''tools'' b) ''tools''"
    using collect_body [of "''tools''" b2 "[]" "[]" b2] unfolding f by simp
  have "normalizeBody parse b =
     (let b4 = (if arrayLength fs > 0
                then AList.update ''features'' (JArr (filterBoolean fs)) b3 else b3)
      in if arrayLength ts > 0 then AList.update ''tools'' (JArr (filterBoolean ts)) b4 else b4)"
    by (simp add: normalizeBody_def Let_def f flip: b2_def b1_def)
  then show ?thesis
    by (simp add: Let_def update_conv' arrayLength_pos b3 flip: ts)
qed

lemma fold_assign_Nil_iff:
  "validIndices es \<Longrightarrow> (fold assignEntry es [] = []) = (es = [])"
  by (metis fold_assign_sort validIndices_def length_0_conv length_sort)

lemma reconstructed_features:
  assumes "validIndices (indexedEntries ''features['' b)"
  shows "map_of (normalizeBody parse b) ''features'' =
         reconstructed parse (indexedEntries ''features['' b) (map_of b ''features'')"
  using assms fold_assign_Nil_iff [OF assms]
  by (simp add: normalizeBody_features reconstructed_def Let_def filterBoolean_def
        fold_assign_sort validIndices_def map_of_parse_same fallbackParse_def)

lemma reconstructed_tools:
  assumes "validIndices (indexedEntries ''tools['' b)"
  shows "map_of (normalizeBody parse b) ''tools'' =
         reconstructed parse (indexedEntries ''tools['' b) (map_of b ''tools'')"
  using assms fold_assign_Nil_iff [OF assms]
  by (simp add: normalizeBody_tools reconstructed_def Let_def filterBoolean_def
        fold_assign_sort validIndices_def map_of_parse_same fallbackParse_def)

lemma indexedEntries_mset:
  "mset b' = mset b \<Longrightarrow> mset (indexedEntries pre b') = mset (indexedEntries pre b)"
  by (simp add: indexedEntries_def)

lemma sort_key_perm:
  assumes "mset es' = mset es" "distinct (map fst es)"
  shows "sort_key fst es' = sort_key fst es"
proof (rule map_sorted_distinct_set_unique [where f = fst])
  have s: "set es' = set es" using assms(1) by (rule mset_eq_setD)
  have d: "distinct (map fst es')"
    using assms by (metis distinct_map mset_eq_imp_distinct_iff mset_map)
  show "inj_on fst (set (sort_key fst es') \<union> set (sort_key fst es))"
    using assms(2) by (simp add: s distinct_map)
  show "sorted (map fst (sort_key fst es'))" "sorted (map fst (sort_key fst es))" by simp_all
  show "distinct (map fst (sort_key fst es'))" using d by (simp add: distinct_map)
  show "distinct (map fst (sort_key fst es))" using assms(2) by (simp add: distinct_map)
  show "set (sort_key fst es') = set (sort_key fst es)" by (simp add: s)
qed

lemma validIndices_perm:
  "mset es' = mset es \<Longrightarrow> validIndices es \<Longrightarrow> validIndices es'"
  unfolding validIndices_def
  by (metis mset_eq_imp_distinct_iff mset_map mset_eq_setD)

lemma reconstructed_perm:
  assumes "mset es' = mset es" "distinct (map fst es)"
  shows "reconstructed parse es' f = reconstructed parse es f"
proof -
  have "(es' = []) = (es = [])" using assms(1) by (metis mset_zero_iff)
  then show ?thesis by (simp add: reconstructed_def sort_key_perm [OF assms])
qed

lemma map_of_perm:
  assumes "mset b' = mset b" "distinct (map fst b)"
  shows "map_of b' = map_of b"
proof -
  have "distinct (map fst b')"
    using assms by (metis mset_eq_imp_distinct_iff mset_map)
  moreover have "set b' = set b" using assms(1) by (rule mset_eq_setD)
  ultimately show ?thesis
    using assms(2) map_of_inject_set [of b' b] by blast
qed

lemma arraySet_not_Nil: "arraySet i v a \<noteq> []"
  by (induction i v a rule: arraySet.induct) simp_all

lemma set_arraySet_le: "set (arraySet i v a) \<subseteq> insert (i, v) (set a)"
  by (induction i v a rule: arraySet.induct) auto

lemma fold_assign_keeps: "a \<noteq> [] \<Longrightarrow> fold assignEntry es a \<noteq> []"
  by (induction es arbitrary: a)
     (simp_all add: assignEntry_def arrayAssign_def arraySet_not_Nil)

lemma fold_assign_not_Nil:
  "\<exists>i \<in> set (map fst es). i < 4294967295 \<Longrightarrow> fold assignEntry es a \<noteq> []"
proof (induction es arbitrary: a)
  case Nil
  then show ?case by simp
next
  case (Cons e es)
  show ?case
  proof (cases "fst e < 4294967295")
    case True
    then have "assignEntry e a \<noteq> []"
      by (simp add: assignEntry_def arrayAssign_def arraySet_not_Nil)
    then show ?thesis by (simp add: fold_assign_keeps)
  next
    case False
    with Cons.prems have "\<exists>i \<in> set (map fst es). i < 4294967295" by auto
    then show ?thesis by (simp add: Cons.IH)
  qed
qed

lemma fold_assign_subset: "set (fold assignEntry es a) \<subseteq> set a \<union> set es"
proof (induction es arbitrary: a)
  case Nil
  show ?case by simp
next
  case (Cons e es)
  have "set (assignEntry e a) \<subseteq> insert e (set a)"
    using set_arraySet_le [of "fst e" "snd e" a]
    by (auto simp: assignEntry_def arrayAssign_def)
  with Cons.IH [of "assignEntry e a"] show ?case by auto
qed

lemma filterBoolean_truthy:
  "(\<forall>v \<in> set (filterBoolean a). truthy v) \<and> JStr [] \<notin> set (filterBoolean a)
   \<and> set (filterBoolean a) \<subseteq> snd ` set a"
  by (auto simp: filterBoolean_def)

lemma dropped_field:
  assumes "\<exists>i \<in> set (map fst es). i < 4294967295"
  shows "fold assignEntry es [] \<noteq> []
     \<and> (\<forall>v \<in> set (filterBoolean (fold assignEntry es [])). truthy v)
     \<and> JStr [] \<notin> set (filterBoolean (fold assignEntry es []))
     \<and> set (filterBoolean (fold assignEntry es [])) \<subseteq> snd ` set es"
proof -
  have "snd ` set (fold assignEntry es []) \<subseteq> snd ` set es"
    using fold_assign_subset [of es "[]"] by auto
  then show ?thesis
    using filterBoolean_truthy [of "fold assignEntry es []"] fold_assign_not_Nil [OF assms, of "[]"]
    by blast
qed

text \<open>
  C9. The reconstruction drops every falsy entry, not only the holes: as soon as one
  indexed entry of a field names an array index, the field becomes a list all of whose
  elements are truthy values of the indexed entries; an empty string is never among them.
\<close>

theorem falsy_entries_dropped:
  "((\<exists>i \<in> set (map fst (indexedEntries ''features['' b)). i < 4294967295) \<longrightarrow>
      (\<exists>vs. map_of (normalizeBody parse b) ''features'' = Some (JArr vs)
            \<and> (\<forall>v \<in> set vs. truthy v) \<and> JStr [] \<notin> set vs
            \<and> set vs \<subseteq> snd ` set (indexedEntries ''features['' b)))
   \<and> ((\<exists>i \<in> set (map fst (indexedEntries ''tools['' b)). i < 4294967295) \<longrightarrow>
      (\<exists>vs. map_of (normalizeBody parse b) ''tools'' = Some (JArr vs)
            \<and> (\<forall>v \<in> set vs. truthy v) \<and> JStr [] \<notin> set vs
            \<and> set vs \<subseteq> snd ` set (indexedEntries ''tools['' b)))"
proof (intro conjI impI)
  assume a: "\<exists>i \<in> set (map fst (indexedEntries ''features['' b)). i < 4294967295"
  have "map_of (normalizeBody parse b) ''features'' =
          Some (JArr (filterBoolean (fold assignEntry (indexedEntries ''features['' b) [])))"
    using dropped_field [OF a] by (simp add: normalizeBody_features Let_def)
  then show "\<exists>vs. map_of (normalizeBody parse b) ''features'' = Some (JArr vs)
            \<and> (\<forall>v \<in> set vs. truthy v) \<and> JStr [] \<notin> set vs
            \<and> set vs \<subseteq> snd ` set (indexedEntries ''features['' b)"
    using dropped_field [OF a] by blast
next
  assume a: "\<exists>i \<in> set (map fst (indexedEntries ''tools['' b)). i < 4294967295"
  have "map_of (normalizeBody parse b) ''tools'' =
          Some (JArr (filterBoolean (fold assignEntry (indexedEntries ''tools['' b) [])))"
    using dropped_field [OF a] by (simp add: normalizeBody_tools Let_def)
  then show "\<exists>vs. map_of (normalizeBody parse b) ''tools'' = Some (JArr vs)
            \<and> (\<forall>v \<in> set vs. truthy v) \<and> JStr [] \<notin> set vs
            \<and> set vs \<subseteq> snd ` set (indexedEntries ''tools['' b)"
    using dropped_field [OF a] by blast
qed

lemmas evalNormalize = normalizeBody_def parseArrayField_def startsWith_def parseInt_def
  digitVal_def isDigit_def arrayAssign_def arrayLength_def filterBoolean_def fallbackParse_def

theorem falsy_entries_dropped_witness:
  "(\<exists>i \<in> set (map fst (indexedEntries ''features['' falsyEntriesBody)). i < 4294967295)
   \<and> (\<exists>i \<in> set (map fst (indexedEntries ''tools['' falsyEntriesBody)). i < 4294967295)
   \<and> map_of (normalizeBody exampleParse falsyEntriesBody) ''features'' = Some (JArr [JStr ''a''])
   \<and> map_of (normalizeBody exampleParse falsyEntriesBody) ''tools'' = Some (JArr [JStr ''x''])
   \<and> JStr [] \<notin> set [JStr ''a'']"
  (is "?F \<and> ?T \<and> ?RF \<and> ?RT \<and> ?N")
proof -
  have ief: "indexedEntries ''features['' falsyEntriesBody = [(0, JStr []), (1, JStr ''a'')]"
    by code_simp
  have iet: "indexedEntries ''tools['' falsyEntriesBody = [(0, JNull), (2, JStr ''x'')]"
    by code_simp
  have f: ?F by (simp add: ief)
  have t: ?T by (simp add: iet)
  have rf: ?RF by (simp add: falsyEntriesBody_def evalNormalize)
  have rt: ?RT by (simp add: falsyEntriesBody_def evalNormalize)
  from falsy_entries_dropped [of falsyEntriesBody exampleParse] f
  obtain vs where "map_of (normalizeBody exampleParse falsyEntriesBody) ''features'' = Some (JArr vs)"
    and "JStr [] \<notin> set vs" by blast
  with rf have ?N by simp
  with f t rf rt show ?thesis by blast
qed

text \<open>
  C5 (as amended). When the indexed keys of a field name pairwise distinct array indices
  (below \<open>2^32 - 1\<close>), the write operations give the field the value \<open>reconstructed\<close>:
  with indexed entries, the list of their truthy values by ascending index; with none,
  a non-empty string value parsed as JSON, or the one-element list of the string when
  the parse fails, and any other value (the empty string among them) as it came. The
  result is the same for every rearrangement of the keys of the body.
\<close>

theorem array_fields_reconstructed:
  "(validIndices (indexedEntries ''features['' b) \<longrightarrow>
      map_of (normalizeBody parse b) ''features'' =
        reconstructed parse (indexedEntries ''features['' b) (map_of b ''features'')
      \<and> (distinct (map fst b) \<and> mset b' = mset b \<longrightarrow>
           map_of (normalizeBody parse b') ''features'' =
             map_of (normalizeBody parse b) ''features''))
   \<and> (validIndices (indexedEntries ''tools['' b) \<longrightarrow>
      map_of (normalizeBody parse b) ''tools'' =
        reconstructed parse (indexedEntries ''tools['' b) (map_of b ''tools'')
      \<and> (distinct (map fst b) \<and> mset b' = mset b \<longrightarrow>
           map_of (normalizeBody parse b') ''tools'' =
             map_of (normalizeBody parse b) ''tools''))"
proof -
  have rearranged:
    "map_of (normalizeBody parse b') name = map_of (normalizeBody parse b) name"
    if v: "validIndices (indexedEntries pre b)"
      and r: "\<And>c. validIndices (indexedEntries pre c) \<Longrightarrow>
                map_of (normalizeBody parse c) name =
                  reconstructed parse (indexedEntries pre c) (map_of c name)"
      and p: "distinct (map fst b) \<and> mset b' = mset b"
    for pre name
  proof -
    from p have pm: "mset b' = mset b" and pd: "distinct (map fst b)" by simp_all
    have m: "map_of b' = map_of b" by (rule map_of_perm [OF pm pd])
    have e: "mset (indexedEntries pre b') = mset (indexedEntries pre b)"
      by (rule indexedEntries_mset [OF pm])
    have v': "validIndices (indexedEntries pre b')"
      by (rule validIndices_perm [OF e v])
    have d: "distinct (map fst (indexedEntries pre b))"
      using v by (simp add: validIndices_def)
    show ?thesis
      unfolding r [OF v'] r [OF v] m by (rule reconstructed_perm [OF e d])
  qed
  show ?thesis
    using reconstructed_features reconstructed_tools
      rearranged [of "''features[''" "''features''"] rearranged [of "''tools[''" "''tools''"]
    by blast
qed

theorem array_fields_reconstructed_witness:
  \<open>validIndices (indexedEntries ''features['' indexedBody)
   \<and> validIndices (indexedEntries ''tools['' indexedBody)
   \<and> distinct (map fst indexedBody) \<and> mset indexedBodyReordered = mset indexedBody
   \<and> map_of (normalizeBody exampleParse indexedBody) ''features'' = Some (JArr [JStr ''b'', JStr ''a''])
   \<and> map_of (normalizeBody exampleParse indexedBody) ''tools'' = Some (JArr [JStr ''x'', JStr ''y''])
   \<and> map_of (normalizeBody exampleParse indexedBodyReordered) ''features'' = Some (JArr [JStr ''b'', JStr ''a''])
   \<and> map_of (normalizeBody exampleParse indexedBodyReordered) ''tools'' = Some (JArr [JStr ''x'', JStr ''y''])\<close>
  (is "?VF \<and> ?VT \<and> ?D \<and> ?M \<and> ?RF \<and> ?RT \<and> ?RF' \<and> ?RT'")
proof -
  have ief: "indexedEntries ''features['' indexedBody = [(1, JStr ''a''), (0, JStr ''b'')]"
    by code_simp
  have iet: "indexedEntries ''tools['' indexedBody = []"
    by code_simp
  have vf: ?VF by (simp add: ief validIndices_def)
  have vt: ?VT by (simp add: iet validIndices_def)
  have d: ?D by (simp add: indexedBody_def)
  have m: ?M by (simp add: indexedBody_def indexedBodyReordered_def)
  note inst = array_fields_reconstructed [of indexedBody exampleParse indexedBodyReordered]
  have tl: \<open>map_of indexedBody ''tools'' = Some (JStr ''["x","y"]'')\<close>
    by (simp add: indexedBody_def)
  have ps: \<open>fallbackParse exampleParse ''["x","y"]'' = JArr [JStr ''x'', JStr ''y'']\<close>
    by (simp add: fallbackParse_def exampleParse_def)
  have rf: ?RF using inst vf by (simp add: ief reconstructed_def)
  have rt: ?RT using inst vt by (simp add: iet reconstructed_def tl ps)
  have rf': ?RF' using inst vf d m rf by simp
  have rt': ?RT' using inst vt d m rt by simp
  from vf vt d m rf rt rf' rt' show ?thesis by blast
qed

text \<open>
  C5 as stated fails on three inputs: an empty string is neither parsed nor wrapped
  into a list; an entry whose index is not an array index is lost; and two keys that
  name the same index leave the value of whichever comes later.
\<close>

theorem array_fields_counterexample:
  "map_of (normalizeBody exampleParse [(''features'', JStr [])]) ''features'' = Some (JStr [])
   \<and> exampleParse [] = None
   \<and> map_of (normalizeBody exampleParse [(''features'', JStr [])]) ''features''
       \<noteq> Some (fallbackParse exampleParse [])
   \<and> map_of (normalizeBody exampleParse [(''features[4294967295]'', JStr ''a'')]) ''features'' = None
   \<and> map_of (normalizeBody exampleParse [(''features[0]'', JStr ''a''), (''features[00]'', JStr ''b'')])
        ''features'' = Some (JArr [JStr ''b''])
   \<and> map_of (normalizeBody exampleParse [(''features[00]'', JStr ''b''), (''features[0]'', JStr ''a'')])
        ''features'' = Some (JArr [JStr ''a''])"
  by (simp add: evalNormalize exampleParse_def)

section \<open>Properties of the project controller\<close>

lemma findById_None: "(findById i store = None) = (i \<notin> projectId ` set store)"
  by (auto simp: findById_def find_None_iff)

text \<open>
  C3. For an id that the identifier check rejects, \<open>getProject\<close>, \<open>updateProject\<close> and
  \<open>deleteProject\<close> answer 400 with no call issued (no lookup among them) and the
  collection as it was; for an id that passes the check and belongs to no stored
  record, they answer 404 after the one lookup.
\<close>

theorem identifier_errors:
  "(\<not> isValidObjectId e (paramsId req) \<longrightarrow>
      getProject e store req =
        (respond 400 False ''Invalid project ID format'' NoPayload, store, [])
    \<and> updateProject e store req =
        (respond 400 False ''Invalid project ID format'' NoPayload, store, [])
    \<and> deleteProject e store req =
        (respond 400 False ''Invalid project ID format'' NoPayload, store, []))
   \<and> (isValidObjectId e (paramsId req) \<and> paramsId req \<notin> projectId ` set store \<longrightarrow>
      getProject e store req =
        (respond 404 False ''Project not found'' NoPayload, store, [FindById (paramsId req)])
    \<and> updateProject e store req =
        (respond 404 False ''Project not found'' NoPayload, store, [FindById (paramsId req)])
    \<and> deleteProject e store req =
        (respond 404 False ''Project not found'' NoPayload, store, [FindById (paramsId req)]))"
  by (simp add: getProject_def updateProject_def deleteProject_def Let_def
        findById_None [symmetric])

lemma hex1: "hexObjectId ''507f1f77bcf86cd799439099''" by code_simp
lemma hex2: "\<not> hexObjectId ''not-an-id''" by code_simp

theorem identifier_errors_witness:
  "\<not> isValidObjectId exampleEnv (paramsId (requestFor ''not-an-id'' []))
   \<and> status (fst (getProject exampleEnv exampleStore (requestFor ''not-an-id'' []))) = 400
   \<and> status (fst (updateProject exampleEnv exampleStore (requestFor ''not-an-id'' []))) = 400
   \<and> status (fst (deleteProject exampleEnv exampleStore (requestFor ''not-an-id'' []))) = 400
   \<and> snd (snd (deleteProject exampleEnv exampleStore (requestFor ''not-an-id'' []))) = []
   \<and> isValidObjectId exampleEnv (paramsId (requestFor ''507f1f77bcf86cd799439099'' []))
   \<and> paramsId (requestFor ''507f1f77bcf86cd799439099'' []) \<notin> projectId ` set exampleStore
   \<and> status (fst (getProject exampleEnv exampleStore (requestFor ''507f1f77bcf86cd799439099'' []))) = 404
   \<and> status (fst (updateProject exampleEnv exampleStore (requestFor ''507f1f77bcf86cd799439099'' []))) = 404
   \<and> status (fst (deleteProject exampleEnv exampleStore (requestFor ''507f1f77bcf86cd799439099'' []))) = 404"
proof -
  have bad: "\<not> isValidObjectId exampleEnv (paramsId (requestFor ''not-an-id'' []))"
    by (simp add: exampleEnv_def requestFor_def hex2)
  have good: "isValidObjectId exampleEnv (paramsId (requestFor ''507f1f77bcf86cd799439099'' []))"
    by (simp add: exampleEnv_def requestFor_def hex1)
  have absent: "paramsId (requestFor ''507f1f77bcf86cd799439099'' []) \<notin> projectId ` set exampleStore"
    by (simp add: requestFor_def exampleStore_def projectWithVideo_def projectWithoutMedia_def
          blankProject_def)
  show ?thesis
    using bad good absent
      identifier_errors [of exampleEnv "requestFor ''not-an-id'' []" exampleStore]
      identifier_errors [of exampleEnv "requestFor ''507f1f77bcf86cd799439099'' []" exampleStore]
    by (simp add: respond_def)
qed

text \<open>
  C8. \<open>getProjects\<close> answers 200 with all records (the same records, each as often as
  stored), in descending order of creation time; it leaves the collection as it was,
  so a second call with no write in between gives the same answer in the same order.
\<close>

theorem list_newest_first:
  "fst (getProjects store) = respond 200 True [] (ProjectList (length store) (findSorted store))
   \<and> mset (findSorted store) = mset store
   \<and> sorted_wrt (\<lambda>p q. createdAt p \<ge> createdAt q) (findSorted store)
   \<and> fst (snd (getProjects store)) = store
   \<and> fst (getProjects (fst (snd (getProjects store)))) = fst (getProjects store)"
proof -
  have "sorted (map (\<lambda>p. - int (createdAt p)) (findSorted store))"
    by (simp add: findSorted_def)
  then have "sorted_wrt (\<lambda>p q. createdAt p \<ge> createdAt q) (findSorted store)"
    by (simp add: sorted_map)
  then show ?thesis
    by (simp add: getProjects_def Let_def findSorted_def)
qed

lemma normalizeBody_other:
  assumes "k \<noteq> ''features''" "k \<noteq> ''tools''"
    and "\<not> startsWith k ''features[''" "\<not> startsWith k ''tools[''"
  shows "map_of (normalizeBody parse b) k = map_of b k"
proof -
  define b2 where "b2 = parseArrayField parse ''tools'' (parseArrayField parse ''features'' b)"
  obtain fs ts b3 where f: "fold collectKey b2 ([], [], b2) = (fs, ts, b3)"
    by (cases "fold collectKey b2 ([], [], b2)")
  have "map_of b2 k = map_of b k"
    using assms(1,2) by (simp add: b2_def map_of_parse_other)
  then have b3: "map_of b3 k = map_of b k"
    using collect_body [OF assms(3,4), of b2 "[]" "[]" b2] unfolding f by simp
  have "normalizeBody parse b =
     (let b4 = (if arrayLength fs > 0
                then AList.update ''features'' (JArr (filterBoolean fs)) b3 else b3)
      in if arrayLength ts > 0 then AList.update ''tools'' (JArr (filterBoolean ts)) b4 else b4)"
    by (simp add: normalizeBody_def Let_def f flip: b2_def)
  then show ?thesis
    using assms(1,2) by (simp add: Let_def update_conv' b3)
qed

lemma normalizeBody_media:
  "map_of (normalizeBody parse b) (urlKey m) = map_of b (urlKey m)"
  "map_of (normalizeBody parse b) (publicIdKey m) = map_of b (publicIdKey m)"
  "map_of (normalizeBody parse b) (removeKey m) = map_of b (removeKey m)"
  by (cases m; simp add: normalizeBody_other startsWith_def)+

lemma normalizeBody_media_keys:
  "map_of (normalizeBody parse b) ''cloudinaryVideoUrl'' = map_of b ''cloudinaryVideoUrl''"
  "map_of (normalizeBody parse b) ''cloudinaryVideoPublicId'' = map_of b ''cloudinaryVideoPublicId''"
  "map_of (normalizeBody parse b) ''removeVideo'' = map_of b ''removeVideo''"
  "map_of (normalizeBody parse b) ''cloudinaryThumbnailUrl'' = map_of b ''cloudinaryThumbnailUrl''"
  "map_of (normalizeBody parse b) ''cloudinaryThumbnailPublicId'' =
     map_of b ''cloudinaryThumbnailPublicId''"
  "map_of (normalizeBody parse b) ''removeThumbnail'' = map_of b ''removeThumbnail''"
  by (simp_all add: normalizeBody_other startsWith_def)

lemma deleteCalls_append: "deleteCalls m (xs @ ys) = deleteCalls m xs @ deleteCalls m ys"
  by (induction m xs rule: deleteCalls.induct) simp_all

lemma deleteCalls_tryDelete:
  "deleteCalls m (tryDelete e m' pid) = (if m' = m then [pid] else [])"
  by (simp add: tryDelete_def split: outcome.splits)

lemma keys_differ:
  "urlKey m \<noteq> publicIdKey m'" "m \<noteq> m' \<Longrightarrow> urlKey m \<noteq> urlKey m'"
  "m \<noteq> m' \<Longrightarrow> publicIdKey m \<noteq> publicIdKey m'"
  by (cases m; cases m'; simp)+

lemma updateMedia_supplied:
  assumes "truthyOpt (map_of b (urlKey m))" "truthyOpt (map_of b (publicIdKey m))"
  shows "updateMedia e m existing req store b evs =
           Inr (b, evs @ (if storedPublicId m existing \<noteq> []
                            \<and> map_of b (publicIdKey m) \<noteq> Some (JStr (storedPublicId m existing))
                          then tryDelete e m (storedPublicId m existing) else []))"
  using assms by (auto simp: updateMedia_def Let_def)

lemma uploadFile_Inl:
  "uploadFile e m f store b evs = Inl r \<Longrightarrow>
     status (answerOf r) = 500 \<and> (\<exists>rest. eventsOf r = evs @ rest \<and> deleteCalls m' rest = [])"
  by (auto simp: uploadFile_def answerOf_def eventsOf_def respond_def split: outcome.splits)

lemma uploadFile_Inr:
  "uploadFile e m f store b evs = Inr (b', evs') \<Longrightarrow>
     (\<exists>r. uploadToCloudinary e m f = Resolved r
        \<and> b' = AList.update (publicIdKey m) (JStr (snd r)) (AList.update (urlKey m) (JStr (fst r)) b))
     \<and> (\<exists>rest. evs' = evs @ rest \<and> deleteCalls m' rest = [])"
  by (auto simp: uploadFile_def split: outcome.splits)

lemma updateMedia_Inl:
  assumes "updateMedia e m existing req store b evs = Inl r"
  shows "status (answerOf r) = 500"
    and "m' \<noteq> m \<Longrightarrow> deleteCalls m' (eventsOf r) = deleteCalls m' evs"
proof -
  from assms obtain f where
    u: "uploadFile e m f store b
          (if storedPublicId m existing \<noteq> [] then evs @ tryDelete e m (storedPublicId m existing) else evs)
        = Inl r"
    by (auto simp: updateMedia_def Let_def split: if_splits option.splits)
  from uploadFile_Inl [OF u] show "status (answerOf r) = 500" by simp
  assume "m' \<noteq> m"
  with uploadFile_Inl [OF u, of m'] show "deleteCalls m' (eventsOf r) = deleteCalls m' evs"
    by (auto simp: deleteCalls_append deleteCalls_tryDelete)
qed

lemma updateMedia_Inr_calls:
  assumes "updateMedia e m existing req store b evs = Inr (b', evs')" "m' \<noteq> m"
  shows "deleteCalls m' evs' = deleteCalls m' evs"
  using assms
  by (auto simp: updateMedia_def Let_def deleteCalls_append deleteCalls_tryDelete
      split: if_splits option.splits dest!: uploadFile_Inr [where m' = m'])

lemma updateMedia_Inr_frame:
  assumes "updateMedia e m existing req store b evs = Inr (b', evs')"
    and "k \<noteq> urlKey m" "k \<noteq> publicIdKey m"
  shows "map_of b' k = map_of b k"
  using assms
  by (auto simp: updateMedia_def Let_def update_conv'
      split: if_splits option.splits dest!: uploadFile_Inr [where m' = m])


lemma updateProject_found:
  assumes "isValidObjectId e (paramsId req)"
    and "findById (paramsId req) store = Some existing"
  shows "updateProject e store req =
     (let b = normalizeBody (jsonParse e) (reqBody req) in
      case updateMedia e Video existing req store b [FindById (paramsId req)] of
        Inl answer \<Rightarrow> answer
      | Inr (b1, evs1) \<Rightarrow>
          (case updateMedia e Thumbnail existing req store b1 evs1 of
             Inl answer \<Rightarrow> answer
           | Inr (b2, evs2) \<Rightarrow>
               (case updatedProject existing b2 of
                  Inl errs \<Rightarrow>
                    (respond 400 False ''Validation error'' (ValidationErrors errs), store,
                     evs2 @ [FindByIdAndUpdate (paramsId req),
                             ConsoleError ''Error updating project:''])
                | Inr doc \<Rightarrow>
                    (respond 200 True ''Project updated successfully'' (ProjectDoc doc),
                     replaceById (paramsId req) doc store,
                     evs2 @ [FindByIdAndUpdate (paramsId req)]))))"
  using assms by (simp add: updateProject_def Let_def)

lemma video_calls:
  assumes valid: "isValidObjectId e (paramsId req)"
    and found: "findById (paramsId req) store = Some existing"
    and su: "truthyOpt (map_of (reqBody req) (urlKey Video))"
    and sp: "truthyOpt (map_of (reqBody req) (publicIdKey Video))"
  shows "deleteCalls Video (eventsOf (updateProject e store req)) =
           (if storedPublicId Video existing \<noteq> []
               \<and> map_of (reqBody req) (publicIdKey Video) \<noteq> Some (JStr (storedPublicId Video existing))
            then [storedPublicId Video existing] else [])"
proof -
  define b where "b = normalizeBody (jsonParse e) (reqBody req)"
  define calls where "calls =
    (if storedPublicId Video existing \<noteq> []
        \<and> map_of b (publicIdKey Video) \<noteq> Some (JStr (storedPublicId Video existing))
     then tryDelete e Video (storedPublicId Video existing) else [])"
  define evs1 where "evs1 = [FindById (paramsId req)] @ calls"
  have keys: "map_of b ''cloudinaryVideoUrl'' = map_of (reqBody req) ''cloudinaryVideoUrl''"
    "map_of b ''cloudinaryVideoPublicId'' = map_of (reqBody req) ''cloudinaryVideoPublicId''"
    by (simp_all add: b_def normalizeBody_media_keys)
  have v: "updateMedia e Video existing req store b [FindById (paramsId req)] = Inr (b, evs1)"
    using su sp unfolding evs1_def calls_def
    by (intro updateMedia_supplied) (simp_all add: keys)
  have c1: "deleteCalls Video evs1 =
           (if storedPublicId Video existing \<noteq> []
               \<and> map_of (reqBody req) (publicIdKey Video) \<noteq> Some (JStr (storedPublicId Video existing))
            then [storedPublicId Video existing] else [])"
    by (simp add: evs1_def calls_def deleteCalls_append deleteCalls_tryDelete keys)
  have up: "updateProject e store req =
      (case updateMedia e Thumbnail existing req store b evs1 of
             Inl answer \<Rightarrow> answer
           | Inr (b2, evs2) \<Rightarrow>
               (case updatedProject existing b2 of
                  Inl errs \<Rightarrow>
                    (respond 400 False ''Validation error'' (ValidationErrors errs), store,
                     evs2 @ [FindByIdAndUpdate (paramsId req),
                             ConsoleError ''Error updating project:''])
                | Inr doc \<Rightarrow>
                    (respond 200 True ''Project updated successfully'' (ProjectDoc doc),
                     replaceById (paramsId req) doc store,
                     evs2 @ [FindByIdAndUpdate (paramsId req)])))"
    by (simp add: updateProject_found [OF valid found] Let_def v flip: b_def)
  have "deleteCalls Video (eventsOf (updateProject e store req)) = deleteCalls Video evs1"
  proof (cases "updateMedia e Thumbnail existing req store b evs1")
    case (Inl r)
    then show ?thesis
      using updateMedia_Inl(2) [OF Inl, of Video] by (simp add: up)
  next
    case (Inr p)
    obtain b2 evs2 where p: "p = (b2, evs2)" by (cases p)
    have "deleteCalls Video evs2 = deleteCalls Video evs1"
      using updateMedia_Inr_calls [of e Thumbnail existing req store b evs1 b2 evs2 Video] Inr p
      by simp
    then show ?thesis
      by (simp add: up Inr p eventsOf_def deleteCalls_append split: sum.splits)
  qed
  with c1 show ?thesis by simp
qed

lemma thumbnail_calls:
  assumes valid: "isValidObjectId e (paramsId req)"
    and found: "findById (paramsId req) store = Some existing"
    and su: "truthyOpt (map_of (reqBody req) (urlKey Thumbnail))"
    and sp: "truthyOpt (map_of (reqBody req) (publicIdKey Thumbnail))"
    and ok: "status (answerOf (updateProject e store req)) \<noteq> 500"
  shows "deleteCalls Thumbnail (eventsOf (updateProject e store req)) =
           (if storedPublicId Thumbnail existing \<noteq> []
               \<and> map_of (reqBody req) (publicIdKey Thumbnail)
                   \<noteq> Some (JStr (storedPublicId Thumbnail existing))
            then [storedPublicId Thumbnail existing] else [])"
proof -
  define b where "b = normalizeBody (jsonParse e) (reqBody req)"
  note up = updateProject_found [OF valid found, unfolded Let_def, folded b_def]
  show ?thesis
  proof (cases "updateMedia e Video existing req store b [FindById (paramsId req)]")
    case (Inl r)
    then have "status (answerOf (updateProject e store req)) = 500"
      using updateMedia_Inl(1) [OF Inl] by (simp add: up)
    with ok show ?thesis by simp
  next
    case (Inr p)
    obtain b1 evs1 where p: "p = (b1, evs1)" by (cases p)
    have v: "updateMedia e Video existing req store b [FindById (paramsId req)] = Inr (b1, evs1)"
      using Inr p by simp
    have keys: "map_of b1 ''cloudinaryThumbnailUrl'' = map_of (reqBody req) ''cloudinaryThumbnailUrl''"
      "map_of b1 ''cloudinaryThumbnailPublicId'' = map_of (reqBody req) ''cloudinaryThumbnailPublicId''"
      using updateMedia_Inr_frame [OF v] by (simp_all add: b_def normalizeBody_media_keys)
    have e1: "deleteCalls Thumbnail evs1 = []"
      using updateMedia_Inr_calls [OF v, of Thumbnail] by simp
    define calls where "calls =
      (if storedPublicId Thumbnail existing \<noteq> []
          \<and> map_of b1 (publicIdKey Thumbnail) \<noteq> Some (JStr (storedPublicId Thumbnail existing))
       then tryDelete e Thumbnail (storedPublicId Thumbnail existing) else [])"
    have t: "updateMedia e Thumbnail existing req store b1 evs1 = Inr (b1, evs1 @ calls)"
      using su sp unfolding calls_def
      by (intro updateMedia_supplied) (simp_all add: keys)
    show ?thesis
      by (simp add: up v t eventsOf_def deleteCalls_append e1 calls_def deleteCalls_tryDelete keys
          split: sum.splits)
  qed
qed

text \<open>
  C4 (as amended). An update of an existing record whose body supplies a video URL and
  public id issues exactly one delete call for the video, against the stored public id,
  when that id is not empty and differs from the supplied one, and none when the stored
  id is empty or equal to the supplied one. The same holds of a supplied thumbnail pair
  when the request has not been answered 500 before the thumbnail is looked at.
\<close>

theorem update_delete_calls:
  assumes "isValidObjectId e (paramsId req)"
    and "findById (paramsId req) store = Some existing"
  shows "(truthyOpt (map_of (reqBody req) ''cloudinaryVideoUrl'')
          \<and> truthyOpt (map_of (reqBody req) ''cloudinaryVideoPublicId'') \<longrightarrow>
            deleteCalls Video (eventsOf (updateProject e store req)) =
              (if cloudinaryVideoPublicId existing \<noteq> []
                  \<and> map_of (reqBody req) ''cloudinaryVideoPublicId''
                      \<noteq> Some (JStr (cloudinaryVideoPublicId existing))
               then [cloudinaryVideoPublicId existing] else []))
       \<and> (truthyOpt (map_of (reqBody req) ''cloudinaryThumbnailUrl'')
          \<and> truthyOpt (map_of (reqBody req) ''cloudinaryThumbnailPublicId'')
          \<and> status (answerOf (updateProject e store req)) \<noteq> 500 \<longrightarrow>
            deleteCalls Thumbnail (eventsOf (updateProject e store req)) =
              (if cloudinaryThumbnailPublicId existing \<noteq> []
                  \<and> map_of (reqBody req) ''cloudinaryThumbnailPublicId''
                      \<noteq> Some (JStr (cloudinaryThumbnailPublicId existing))
               then [cloudinaryThumbnailPublicId existing] else []))"
  using video_calls [OF assms] thumbnail_calls [OF assms] by simp

lemma hexIds:
  "hexObjectId ''507f1f77bcf86cd799439011''" "hexObjectId ''507f1f77bcf86cd799439010''"
  by code_simp+

lemma exampleFinds:
  "findById ''507f1f77bcf86cd799439011'' exampleStore = Some projectWithVideo"
  "findById ''507f1f77bcf86cd799439010'' exampleStore = Some projectWithoutMedia"
  by (simp_all add: findById_def exampleStore_def projectWithVideo_def projectWithoutMedia_def
        blankProject_def)

lemmas evalUpdate = updateMedia_def updatedProject_def optionalErrors_def
  requiredOnUpdate_def malformedError_def tryDelete_def respond_def answerOf_def eventsOf_def
  storeOf_def

lemma exampleIds:
  "isValidObjectId exampleEnv ''507f1f77bcf86cd799439011''"
  "isValidObjectId exampleEnv ''507f1f77bcf86cd799439010''"
  by (simp_all add: exampleEnv_def hexIds)

lemma exampleEnv_simps:
  "jsonParse exampleEnv = exampleParse"
  "deleteVideoFromCloudinary exampleEnv pid = Resolved ()"
  "deleteImageFromCloudinary exampleEnv pid = Resolved ()"
  by (simp_all add: exampleEnv_def)

lemma exampleProject_simps:
  "cloudinaryVideoPublicId projectWithVideo = ''old''"
  "cloudinaryThumbnailPublicId projectWithVideo = []"
  "cloudinaryVideoPublicId projectWithoutMedia = []"
  "cloudinaryThumbnailPublicId projectWithoutMedia = []"
  by (simp_all add: projectWithVideo_def projectWithoutMedia_def blankProject_def)

lemma requestFor_simps:
  "paramsId (requestFor i b) = i" "reqBody (requestFor i b) = b"
  "videoFile (requestFor i b) = None" "thumbnailFile (requestFor i b) = None"
  "contentType (requestFor i b) = ''application/json''"
  by (simp_all add: requestFor_def)

lemma updateProject_requestFor:
  assumes "isValidObjectId e i" and "findById i store = Some existing"
  shows "updateProject e store (requestFor i b) =
     (case updateMedia e Video existing (requestFor i b) store (normalizeBody (jsonParse e) b)
             [FindById i] of
        Inl answer \<Rightarrow> answer
      | Inr (b1, evs1) \<Rightarrow>
          (case updateMedia e Thumbnail existing (requestFor i b) store b1 evs1 of
             Inl answer \<Rightarrow> answer
           | Inr (b2, evs2) \<Rightarrow>
               (case updatedProject existing b2 of
                  Inl errs \<Rightarrow>
                    (respond 400 False ''Validation error'' (ValidationErrors errs), store,
                     evs2 @ [FindByIdAndUpdate i, ConsoleError ''Error updating project:''])
                | Inr doc \<Rightarrow>
                    (respond 200 True ''Project updated successfully'' (ProjectDoc doc),
                     replaceById i doc store, evs2 @ [FindByIdAndUpdate i]))))"
  using assms
  by (simp add: updateProject_def Let_def requestFor_simps split: sum.splits prod.splits)

lemma replaceVideo_status:
  "status (answerOf (updateProject exampleEnv exampleStore replaceVideoRequest)) = 200"
  unfolding replaceVideoRequest_def
  by (simp add: updateProject_requestFor [OF exampleIds(1) exampleFinds(1)] requestFor_simps
        exampleEnv_simps exampleProject_simps evalNormalize evalUpdate)

theorem update_delete_calls_witness:
  "isValidObjectId exampleEnv (paramsId replaceVideoRequest)
   \<and> findById (paramsId replaceVideoRequest) exampleStore = Some projectWithVideo
   \<and> truthyOpt (map_of (reqBody replaceVideoRequest) ''cloudinaryVideoUrl'')
   \<and> truthyOpt (map_of (reqBody replaceVideoRequest) ''cloudinaryVideoPublicId'')
   \<and> truthyOpt (map_of (reqBody replaceVideoRequest) ''cloudinaryThumbnailUrl'')
   \<and> truthyOpt (map_of (reqBody replaceVideoRequest) ''cloudinaryThumbnailPublicId'')
   \<and> status (answerOf (updateProject exampleEnv exampleStore replaceVideoRequest)) \<noteq> 500
   \<and> deleteCalls Video (eventsOf (updateProject exampleEnv exampleStore replaceVideoRequest))
        = [''old'']
   \<and> deleteCalls Thumbnail (eventsOf (updateProject exampleEnv exampleStore replaceVideoRequest))
        = []
   \<and> isValidObjectId exampleEnv (paramsId sameVideoRequest)
   \<and> findById (paramsId sameVideoRequest) exampleStore = Some projectWithVideo
   \<and> truthyOpt (map_of (reqBody sameVideoRequest) ''cloudinaryVideoUrl'')
   \<and> truthyOpt (map_of (reqBody sameVideoRequest) ''cloudinaryVideoPublicId'')
   \<and> deleteCalls Video (eventsOf (updateProject exampleEnv exampleStore sameVideoRequest)) = []"
proof -
  have v: "isValidObjectId exampleEnv (paramsId replaceVideoRequest)"
    "isValidObjectId exampleEnv (paramsId sameVideoRequest)"
    by (simp_all add: exampleEnv_def replaceVideoRequest_def sameVideoRequest_def requestFor_def
          hexIds)
  have f: "findById (paramsId replaceVideoRequest) exampleStore = Some projectWithVideo"
    "findById (paramsId sameVideoRequest) exampleStore = Some projectWithVideo"
    by (simp_all add: replaceVideoRequest_def sameVideoRequest_def requestFor_def exampleFinds)
  have b: "reqBody replaceVideoRequest =
             [(''cloudinaryVideoUrl'', JStr ''https://media/new''),
              (''cloudinaryVideoPublicId'', JStr ''new''),
              (''cloudinaryThumbnailUrl'', JStr ''https://media/thumb''),
              (''cloudinaryThumbnailPublicId'', JStr ''thumb1'')]"
    "reqBody sameVideoRequest =
             [(''cloudinaryVideoUrl'', JStr ''https://media/old''),
              (''cloudinaryVideoPublicId'', JStr ''old'')]"
    by (simp_all add: replaceVideoRequest_def sameVideoRequest_def requestFor_def)
  have p: "cloudinaryVideoPublicId projectWithVideo = ''old''"
    "cloudinaryThumbnailPublicId projectWithVideo = []"
    by (simp_all add: projectWithVideo_def blankProject_def)
  show ?thesis
    using update_delete_calls [OF v(1) f(1)] update_delete_calls [OF v(2) f(2)]
      replaceVideo_status
    by (simp add: v f b p)
qed

text \<open>
  C4 as stated fails on two inputs. When the record has no video yet, the supplied
  public id differs from the stored (empty) one and no delete call is issued. And when
  the upload of a video file rejects, the update is answered 500 before the thumbnail
  is looked at: no delete call is issued for the stored thumbnail, although the body
  supplies a thumbnail pair with another public id.
\<close>

theorem update_delete_calls_counterexample:
  "isValidObjectId exampleEnv (paramsId firstVideoRequest)
   \<and> findById (paramsId firstVideoRequest) exampleStore = Some projectWithoutMedia
   \<and> map_of (reqBody firstVideoRequest) ''cloudinaryVideoUrl'' = Some (JStr ''https://media/new'')
   \<and> map_of (reqBody firstVideoRequest) ''cloudinaryVideoPublicId'' = Some (JStr ''new'')
   \<and> cloudinaryVideoPublicId projectWithoutMedia \<noteq> ''new''
   \<and> status (answerOf (updateProject exampleEnv exampleStore firstVideoRequest)) = 200
   \<and> deleteCalls Video (eventsOf (updateProject exampleEnv exampleStore firstVideoRequest)) = []
   \<and> isValidObjectId uploadFailingEnv (paramsId videoFileRequest)
   \<and> findById (paramsId videoFileRequest) [projectWithThumbnail] = Some projectWithThumbnail
   \<and> cloudinaryThumbnailPublicId projectWithThumbnail = ''thumb0''
   \<and> map_of (reqBody videoFileRequest) ''cloudinaryThumbnailUrl''
       = Some (JStr ''https://media/thumb1'')
   \<and> map_of (reqBody videoFileRequest) ''cloudinaryThumbnailPublicId'' = Some (JStr ''thumb1'')
   \<and> status (answerOf (updateProject uploadFailingEnv [projectWithThumbnail] videoFileRequest))
       = 500
   \<and> deleteCalls Thumbnail
        (eventsOf (updateProject uploadFailingEnv [projectWithThumbnail] videoFileRequest)) = []"
proof -
  have first: "isValidObjectId exampleEnv (paramsId firstVideoRequest)
   \<and> findById (paramsId firstVideoRequest) exampleStore = Some projectWithoutMedia
   \<and> map_of (reqBody firstVideoRequest) ''cloudinaryVideoUrl'' = Some (JStr ''https://media/new'')
   \<and> map_of (reqBody firstVideoRequest) ''cloudinaryVideoPublicId'' = Some (JStr ''new'')
   \<and> cloudinaryVideoPublicId projectWithoutMedia \<noteq> ''new''
   \<and> status (answerOf (updateProject exampleEnv exampleStore firstVideoRequest)) = 200
   \<and> deleteCalls Video (eventsOf (updateProject exampleEnv exampleStore firstVideoRequest)) = []"
    unfolding firstVideoRequest_def
    by (simp add: updateProject_requestFor [OF exampleIds(2) exampleFinds(2)] requestFor_simps
          exampleIds exampleFinds exampleEnv_simps exampleProject_simps evalNormalize evalUpdate)
  have hex: "hexObjectId ''507f1f77bcf86cd799439013''" by code_simp
  have v: "isValidObjectId uploadFailingEnv (paramsId videoFileRequest)"
    by (simp add: uploadFailingEnv_def exampleEnv_def videoFileRequest_def hex)
  have f: "findById (paramsId videoFileRequest) [projectWithThumbnail] = Some projectWithThumbnail"
    by (simp add: findById_def videoFileRequest_def projectWithThumbnail_def blankProject_def)
  have p: "cloudinaryThumbnailPublicId projectWithThumbnail = ''thumb0''"
    "cloudinaryVideoPublicId projectWithThumbnail = []"
    by (simp_all add: projectWithThumbnail_def blankProject_def)
  have b: "reqBody videoFileRequest =
             [(''cloudinaryThumbnailUrl'', JStr ''https://media/thumb1''),
              (''cloudinaryThumbnailPublicId'', JStr ''thumb1'')]"
    "videoFile videoFileRequest = Some ''video-bytes''"
    by (simp_all add: videoFileRequest_def)
  have n: "normalizeBody (jsonParse uploadFailingEnv)
             [(''cloudinaryThumbnailUrl'', JStr ''https://media/thumb1''),
              (''cloudinaryThumbnailPublicId'', JStr ''thumb1'')]
           = [(''cloudinaryThumbnailUrl'', JStr ''https://media/thumb1''),
              (''cloudinaryThumbnailPublicId'', JStr ''thumb1'')]"
    by (simp add: evalNormalize)
  have u: "uploadVideoToCloudinary uploadFailingEnv ''video-bytes'' = Rejected ''upload failed''"
    by (simp add: uploadFailingEnv_def)
  have second:
    "status (answerOf (updateProject uploadFailingEnv [projectWithThumbnail] videoFileRequest))
       = 500
     \<and> deleteCalls Thumbnail
        (eventsOf (updateProject uploadFailingEnv [projectWithThumbnail] videoFileRequest)) = []"
    by (simp add: updateProject_found [OF v f] Let_def n b p u updateMedia_def uploadFile_def
          respond_def answerOf_def eventsOf_def)
  from first v f p(1) b(1) second show ?thesis by simp
qed

lemma stored_assign:
  "storedUrl m (assignFields p b) = fieldValue (storedUrl m p) (castString (map_of b (urlKey m)))"
  "storedPublicId m (assignFields p b) =
     fieldValue (storedPublicId m p) (castString (map_of b (publicIdKey m)))"
  by (cases m; simp add: assignFields_def)+

lemma pairedFor_assign:
  "pairedFor m (assignFields p b) =
     pairedAfter m p (map_of b (urlKey m)) (map_of b (publicIdKey m))"
  by (simp add: pairedFor_def pairedAfter_def stored_assign)

lemma projectId_assign: "projectId (assignFields p b) = projectId p"
  by (simp add: assignFields_def)

lemma suppliesTogether_cong:
  assumes "map_of b' (urlKey m) = map_of b (urlKey m)"
    and "map_of b' (publicIdKey m) = map_of b (publicIdKey m)"
  shows "suppliesTogether b' m = suppliesTogether b m"
  unfolding suppliesTogether_def assms by (rule refl)

lemma suppliesTogether_cases:
  assumes "suppliesTogether b m"
  obtains (neither) "map_of b (urlKey m) = None" "map_of b (publicIdKey m) = None"
  | (emptyUrl) "map_of b (urlKey m) = Some (JStr [])" "map_of b (publicIdKey m) = None"
  | (both) u p where "map_of b (urlKey m) = Some (JStr u)" "map_of b (publicIdKey m) = Some (JStr p)"
      "(u = []) = (p = [])"
  using assms unfolding suppliesTogether_def
  by (cases "map_of b (urlKey m)"; cases "map_of b (publicIdKey m)")
     (auto split: jsval.splits)

lemma supplied_blank:
  assumes "suppliesTogether b m" "storedUrl m p = []" "storedPublicId m p = []"
  shows "pairedAfter m p (map_of b (urlKey m)) (map_of b (publicIdKey m))"
  using assms(1)
  by (cases rule: suppliesTogether_cases) (simp_all add: pairedAfter_def fieldValue_def assms(2,3))

lemma upload_paired:
  assumes "uploadsTogether e req m" "fileOf m req = Some f"
    and "uploadFile e m f store b evs = Inr (b', evs')"
  shows "pairedAfter m p (map_of b' (urlKey m)) (map_of b' (publicIdKey m))"
  using assms keys_differ(1) [of m m]
  by (auto simp: uploadsTogether_def uploadFile_def pairedAfter_def fieldValue_def update_conv'
      split: outcome.splits)

lemma upload_frame:
  assumes "uploadFile e m f store b evs = Inr (b', evs')"
    and "k \<noteq> urlKey m" "k \<noteq> publicIdKey m"
  shows "map_of b' k = map_of b k"
  using assms by (auto simp: uploadFile_def update_conv' split: outcome.splits)

lemma updateMedia_paired:
  assumes p: "pairedFor m existing" and s: "suppliesTogether b m"
    and u: "uploadsTogether e req m"
    and r: "updateMedia e m existing req store b evs = Inr (b', evs')"
  shows "pairedAfter m existing (map_of b' (urlKey m)) (map_of b' (publicIdKey m))"
proof -
  have cleared: "pairedAfter m existing (map_of c (urlKey m)) (map_of c (publicIdKey m))"
    if "c = AList.update (publicIdKey m) (JStr []) (AList.update (urlKey m) (JStr []) b)" for c
    using keys_differ(1) [of m m] by (simp add: that pairedAfter_def fieldValue_def update_conv')
  have uploaded: "pairedAfter m existing (map_of b' (urlKey m)) (map_of b' (publicIdKey m))"
    if "fileOf m req = Some f" "uploadFile e m f store b evs0 = Inr (b', evs')" for f evs0
    using upload_paired [OF u that] .
  from s show ?thesis
  proof (cases rule: suppliesTogether_cases)
    case neither
    show ?thesis
    proof (cases "map_of b (removeKey m) = Some (JStr ''true'')")
      case True
      show ?thesis
      proof (cases "storedPublicId m existing = []")
        case True
        with r neither \<open>map_of b (removeKey m) = Some (JStr ''true'')\<close> have "b' = b"
          by (simp add: updateMedia_def)
        with True p neither show ?thesis
          by (simp add: pairedAfter_def pairedFor_def fieldValue_def)
      next
        case False
        with r neither True show ?thesis
          by (intro cleared) (simp add: updateMedia_def)
      qed
    next
      case False
      show ?thesis
      proof (cases "fileOf m req")
        case None
        with r neither False have "b' = b" by (simp add: updateMedia_def)
        with p neither show ?thesis
          by (simp add: pairedAfter_def pairedFor_def fieldValue_def)
      next
        case (Some f)
        with r neither False show ?thesis
          by (intro uploaded [OF Some]) (simp add: updateMedia_def Let_def)
      qed
    qed
  next
    case emptyUrl
    show ?thesis
    proof (cases "storedPublicId m existing = []")
      case True
      with r emptyUrl have "b' = b" by (simp add: updateMedia_def)
      with True emptyUrl show ?thesis
        by (simp add: pairedAfter_def fieldValue_def)
    next
      case False
      with r emptyUrl show ?thesis
        by (intro cleared) (simp add: updateMedia_def)
    qed
  next
    case (both u q)
    show ?thesis
    proof (cases "u = []")
      case True
      with both have q: "q = []" by simp
      show ?thesis
      proof (cases "storedPublicId m existing = []")
        case True
        with r both \<open>u = []\<close> q have "b' = b" by (simp add: updateMedia_def)
        with both \<open>u = []\<close> q show ?thesis by (simp add: pairedAfter_def fieldValue_def)
      next
        case False
        with r both True q show ?thesis
          by (intro cleared) (simp add: updateMedia_def)
      qed
    next
      case False
      with both have q: "q \<noteq> []" by simp
      with r both False have "b' = b"
        by (simp add: updateMedia_def Let_def split: if_splits)
      with both False q show ?thesis by (simp add: pairedAfter_def fieldValue_def)
    qed
  qed
qed

lemma findById_Some: "findById i store = Some p \<Longrightarrow> projectId p = i \<and> p \<in> set store"
  by (auto simp: findById_def find_Some_iff)

lemma findById_replace:
  "findById i store = Some p \<Longrightarrow> projectId doc = i \<Longrightarrow>
   findById i (replaceById i doc store) = Some doc"
  by (induction store) (auto simp: findById_def replaceById_def split: if_splits)


lemma blank_stored: "storedUrl m (blankProject i t) = []" "storedPublicId m (blankProject i t) = []"
  by (cases m; simp add: blankProject_def)+

lemma saveProject_created:
  assumes "status (answerOf (saveProject e store b evs)) = 201"
  shows "payload (answerOf (saveProject e store b evs)) =
           ProjectDoc (assignFields (blankProject (newObjectId e) (currentTime e)) b)
       \<and> storeOf (saveProject e store b evs) =
           store @ [assignFields (blankProject (newObjectId e) (currentTime e)) b]"
  using assms
  by (auto simp: saveProject_def newProject_def Let_def answerOf_def storeOf_def respond_def
      split: sum.splits if_splits)

lemma paired_new:
  assumes "pairedAfter Video (blankProject i t) (map_of b (urlKey Video)) (map_of b (publicIdKey Video))"
    and "pairedAfter Thumbnail (blankProject i t) (map_of b (urlKey Thumbnail))
           (map_of b (publicIdKey Thumbnail))"
  shows "paired (assignFields (blankProject i t) b)"
  using assms by (simp only: paired_def pairedFor_assign)

text \<open>The upload step of the multipart path of addProject, for one medium.\<close>

lemma add_upload_step:
  assumes s: "suppliesTogether b m" and u: "uploadsTogether e req m"
    and r: "(case fileOf m req of Some f \<Rightarrow> uploadFile e m f store b evs | None \<Rightarrow> Inr (b, evs))
              = Inr (b', evs')"
  shows "pairedAfter m (blankProject i t) (map_of b' (urlKey m)) (map_of b' (publicIdKey m))"
    and "k \<noteq> urlKey m \<Longrightarrow> k \<noteq> publicIdKey m \<Longrightarrow> map_of b' k = map_of b k"
proof -
  show "pairedAfter m (blankProject i t) (map_of b' (urlKey m)) (map_of b' (publicIdKey m))"
  proof (cases "fileOf m req")
    case None
    with r have "b' = b" by simp
    with s show ?thesis by (simp add: supplied_blank blank_stored)
  next
    case (Some f)
    with r have "uploadFile e m f store b evs = Inr (b', evs')" by simp
    from upload_paired [OF u Some this] show ?thesis .
  qed
  assume k: "k \<noteq> urlKey m" "k \<noteq> publicIdKey m"
  show "map_of b' k = map_of b k"
  proof (cases "fileOf m req")
    case None
    with r show ?thesis by simp
  next
    case (Some f)
    with r have "uploadFile e m f store b evs = Inr (b', evs')" by simp
    from upload_frame [OF this k] show ?thesis .
  qed
qed

lemma add_upload_failed:
  assumes "(case fileOf m req of Some f \<Rightarrow> uploadFile e m f store b evs | None \<Rightarrow> Inr (b, evs))
              = Inl r"
  shows "status (answerOf r) = 500"
  using assms by (auto split: option.splits dest: uploadFile_Inl)

lemma add_pairing:
  assumes sv: "suppliesTogether (reqBody req) Video"
    and st: "suppliesTogether (reqBody req) Thumbnail"
    and uv: "uploadsTogether e req Video" and ut: "uploadsTogether e req Thumbnail"
    and ok: "status (answerOf (addProject e store req)) = 201"
  shows "\<exists>doc. payload (answerOf (addProject e store req)) = ProjectDoc doc
           \<and> storeOf (addProject e store req) = store @ [doc] \<and> paired doc"
proof -
  define b where "b = normalizeBody (jsonParse e) (reqBody req)"
  define blank where "blank = blankProject (newObjectId e) (currentTime e)"
  have sb: "suppliesTogether b m" for m
    using sv st unfolding b_def
    by (cases m) (simp_all add: suppliesTogether_cong [OF normalizeBody_media(1,2)])
  show ?thesis
  proof (cases "includesStr (contentType req) ''application/json''")
    case True
    then have a: "addProject e store req = saveProject e store b []"
      by (simp add: addProject_def b_def)
    have "paired (assignFields blank b)"
      unfolding blank_def by (intro paired_new supplied_blank sb blank_stored)
    with saveProject_created [of e store b "[]"] ok show ?thesis
      by (auto simp: a blank_def)
  next
    case False
    define stepV where "stepV =
      (case videoFile req of Some f \<Rightarrow> uploadFile e Video f store b [] | None \<Rightarrow> Inr (b, []))"
    have a: "addProject e store req =
      (case stepV of
         Inl answer \<Rightarrow> answer
       | Inr (b1, evs1) \<Rightarrow>
           (case (case thumbnailFile req of
                    Some f \<Rightarrow> uploadFile e Thumbnail f store b1 evs1
                  | None \<Rightarrow> Inr (b1, evs1)) of
              Inl answer \<Rightarrow> answer
            | Inr (b2, evs2) \<Rightarrow> saveProject e store b2 evs2))"
      using False by (simp add: addProject_def Let_def stepV_def flip: b_def)
    show ?thesis
    proof (cases stepV)
      case (Inl r)
      then have "status (answerOf (addProject e store req)) = 500"
        using add_upload_failed [where m = Video and req = req and r = r and b = b and evs = "[]"]
        by (simp add: a stepV_def)
      with ok show ?thesis by simp
    next
      case (Inr p1)
      obtain b1 evs1 where p1: "p1 = (b1, evs1)" by (cases p1)
      have v: "(case fileOf Video req of Some f \<Rightarrow> uploadFile e Video f store b []
                | None \<Rightarrow> Inr (b, [])) = Inr (b1, evs1)"
        using Inr p1 by (simp add: stepV_def)
      note vs = add_upload_step [OF sb uv v]
      define stepT where "stepT =
        (case thumbnailFile req of Some f \<Rightarrow> uploadFile e Thumbnail f store b1 evs1
         | None \<Rightarrow> Inr (b1, evs1))"
      have a1: "addProject e store req =
        (case stepT of Inl answer \<Rightarrow> answer | Inr (b2, evs2) \<Rightarrow> saveProject e store b2 evs2)"
        by (simp add: a Inr p1 stepT_def)
      have k1: "map_of b1 (urlKey Thumbnail) = map_of b (urlKey Thumbnail)"
        and k2: "map_of b1 (publicIdKey Thumbnail) = map_of b (publicIdKey Thumbnail)"
        by (rule vs(2); simp)+
      have s1: "suppliesTogether b1 Thumbnail"
        using sb [of Thumbnail] by (simp only: suppliesTogether_cong [OF k1 k2])
      show ?thesis
      proof (cases stepT)
        case (Inl r)
        then have "status (answerOf (addProject e store req)) = 500"
          using add_upload_failed [where m = Thumbnail and req = req and r = r and b = b1 and evs = evs1]
          by (simp add: a1 stepT_def)
        with ok show ?thesis by simp
      next
        case (Inr p2)
        obtain b2 evs2 where p2: "p2 = (b2, evs2)" by (cases p2)
        have t: "(case fileOf Thumbnail req of Some f \<Rightarrow> uploadFile e Thumbnail f store b1 evs1
                  | None \<Rightarrow> Inr (b1, evs1)) = Inr (b2, evs2)"
          using Inr p2 by (simp add: stepT_def)
        note ts = add_upload_step [OF s1 ut t]
        have a2: "addProject e store req = saveProject e store b2 evs2"
          by (simp add: a1 Inr p2)
        have pv: "pairedAfter Video blank (map_of b2 (urlKey Video)) (map_of b2 (publicIdKey Video))"
          using vs(1) [of "newObjectId e" "currentTime e"]
            ts(2) [of "urlKey Video"] ts(2) [of "publicIdKey Video"]
          by (simp add: blank_def)
        have pt: "pairedAfter Thumbnail blank (map_of b2 (urlKey Thumbnail))
                    (map_of b2 (publicIdKey Thumbnail))"
          unfolding blank_def by (rule ts(1))
        have "paired (assignFields blank b2)"
          using pv pt unfolding blank_def by (rule paired_new)
        with saveProject_created [of e store b2 evs2] ok show ?thesis
          by (auto simp: a2 blank_def)
      qed
    qed
  qed
qed


lemma update_pairing:
  assumes found: "findById (paramsId req) store = Some existing"
    and p: "paired existing"
    and sv: "suppliesTogether (reqBody req) Video"
    and st: "suppliesTogether (reqBody req) Thumbnail"
    and uv: "uploadsTogether e req Video" and ut: "uploadsTogether e req Thumbnail"
    and ok: "status (answerOf (updateProject e store req)) = 200"
  shows "\<exists>doc. payload (answerOf (updateProject e store req)) = ProjectDoc doc
           \<and> findById (paramsId req) (storeOf (updateProject e store req)) = Some doc
           \<and> paired doc"
proof -
  have valid: "isValidObjectId e (paramsId req)"
  proof (rule ccontr)
    assume "\<not> isValidObjectId e (paramsId req)"
    then have "status (answerOf (updateProject e store req)) = 400"
      by (simp add: updateProject_def answerOf_def respond_def)
    with ok show False by simp
  qed
  define b where "b = normalizeBody (jsonParse e) (reqBody req)"
  note up = updateProject_found [OF valid found, unfolded Let_def, folded b_def]
  have sb: "suppliesTogether b m" for m
    using sv st unfolding b_def
    by (cases m) (simp_all add: suppliesTogether_cong [OF normalizeBody_media(1,2)])
  from p have pv: "pairedFor Video existing" and pt: "pairedFor Thumbnail existing"
    by (simp_all add: paired_def)
  show ?thesis
  proof (cases "updateMedia e Video existing req store b [FindById (paramsId req)]")
    case (Inl r)
    then have "status (answerOf (updateProject e store req)) = 500"
      using updateMedia_Inl(1) [OF Inl] by (simp add: up)
    with ok show ?thesis by simp
  next
    case (Inr p1)
    obtain b1 evs1 where p1: "p1 = (b1, evs1)" by (cases p1)
    have v: "updateMedia e Video existing req store b [FindById (paramsId req)] = Inr (b1, evs1)"
      using Inr p1 by simp
    note vp = updateMedia_paired [OF pv sb uv v]
    have k1: "map_of b1 (urlKey Thumbnail) = map_of b (urlKey Thumbnail)"
      and k2: "map_of b1 (publicIdKey Thumbnail) = map_of b (publicIdKey Thumbnail)"
      by (rule updateMedia_Inr_frame [OF v]; simp)+
    have s1: "suppliesTogether b1 Thumbnail"
      using sb [of Thumbnail] by (simp only: suppliesTogether_cong [OF k1 k2])
    show ?thesis
    proof (cases "updateMedia e Thumbnail existing req store b1 evs1")
      case (Inl r)
      then have "status (answerOf (updateProject e store req)) = 500"
        using updateMedia_Inl(1) [OF Inl] by (simp add: up v)
      with ok show ?thesis by simp
    next
      case (Inr p2)
      obtain b2 evs2 where p2: "p2 = (b2, evs2)" by (cases p2)
      have t: "updateMedia e Thumbnail existing req store b1 evs1 = Inr (b2, evs2)"
        using Inr p2 by simp
      note tp = updateMedia_paired [OF pt s1 ut t]
      have k3: "map_of b2 (urlKey Video) = map_of b1 (urlKey Video)"
        and k4: "map_of b2 (publicIdKey Video) = map_of b1 (publicIdKey Video)"
        by (rule updateMedia_Inr_frame [OF t]; simp)+
      define doc where "doc = assignFields existing b2"
      have pd: "paired doc"
        using vp tp by (simp only: paired_def pairedFor_assign doc_def k3 k4)
      have up2: "updateProject e store req =
        (case updatedProject existing b2 of
           Inl errs \<Rightarrow>
             (respond 400 False ''Validation error'' (ValidationErrors errs), store,
              evs2 @ [FindByIdAndUpdate (paramsId req), ConsoleError ''Error updating project:''])
         | Inr d \<Rightarrow>
             (respond 200 True ''Project updated successfully'' (ProjectDoc d),
              replaceById (paramsId req) d store, evs2 @ [FindByIdAndUpdate (paramsId req)]))"
        by (simp add: up v t)
      have u: "updatedProject existing b2 = Inr doc"
      proof (cases "updatedProject existing b2")
        case (Inl errs)
        then have "status (answerOf (updateProject e store req)) = 400"
          by (simp add: up2 answerOf_def respond_def)
        with ok show ?thesis by simp
      next
        case (Inr d)
        then show ?thesis
          by (auto simp: updatedProject_def Let_def doc_def split: if_splits)
      qed
      have "projectId doc = paramsId req"
        using findById_Some [OF found] by (simp add: doc_def projectId_assign)
      then have "findById (paramsId req) (replaceById (paramsId req) doc store) = Some doc"
        by (rule findById_replace [OF found])
      with pd show ?thesis
        by (simp add: up2 u answerOf_def storeOf_def respond_def)
    qed
  qed
qed

text \<open>
  C2 (as amended). When the body supplies each medium's URL and public id together
  (both as strings, empty or set alike; or an empty URL alone; or neither), and an
  upload of a file of the request gives a URL and a public id alike, then the record
  stored by a successful create satisfies the pairing, and so does the record stored by
  a successful update of a record that satisfied it: each URL is empty exactly when its
  public id is.
\<close>

theorem media_pairing:
  assumes "suppliesTogether (reqBody req) Video" and "suppliesTogether (reqBody req) Thumbnail"
    and "uploadsTogether e req Video" and "uploadsTogether e req Thumbnail"
  shows "(status (answerOf (addProject e store req)) = 201 \<longrightarrow>
            (\<exists>doc. payload (answerOf (addProject e store req)) = ProjectDoc doc
                  \<and> storeOf (addProject e store req) = store @ [doc] \<and> paired doc))
       \<and> (findById (paramsId req) store = Some existing \<and> paired existing
          \<and> status (answerOf (updateProject e store req)) = 200 \<longrightarrow>
            (\<exists>doc. payload (answerOf (updateProject e store req)) = ProjectDoc doc
                  \<and> findById (paramsId req) (storeOf (updateProject e store req)) = Some doc
                  \<and> paired doc))"
  using add_pairing [OF assms] update_pairing [OF _ _ assms] by blast

lemma json_request: "includesStr (contentType (requestFor i b)) ''application/json''"
  by (simp add: includesStr_def requestFor_def)

lemma addProject_json:
  "addProject e store (requestFor i b) = saveProject e store (normalizeBody (jsonParse e) b) []"
  by (simp add: addProject_def json_request requestFor_simps)

lemmas evalSave = saveProject_def newProject_def requiredOnCreate_def optionalErrors_def
  malformedError_def respond_def answerOf_def storeOf_def

lemma supplies_examples:
  "suppliesTogether (reqBody bothMediaRequest) m"
  "suppliesTogether (reqBody replaceVideoRequest) m"
  by (cases m; simp add: suppliesTogether_def bothMediaRequest_def replaceVideoRequest_def
        requestFor_simps)+

lemma uploads_examples: "uploadsTogether e (requestFor i b) m"
  by (cases m; simp add: uploadsTogether_def requestFor_simps)

lemma paired_example: "paired projectWithVideo"
  by (simp add: paired_def pairedFor_def projectWithVideo_def blankProject_def)

lemma bothMedia_status:
  "status (answerOf (addProject exampleEnv exampleStore bothMediaRequest)) = 201"
  unfolding bothMediaRequest_def
  by (simp add: addProject_json exampleEnv_simps evalNormalize evalSave)

theorem media_pairing_witness:
  "suppliesTogether (reqBody bothMediaRequest) Video
   \<and> suppliesTogether (reqBody bothMediaRequest) Thumbnail
   \<and> uploadsTogether exampleEnv bothMediaRequest Video
   \<and> uploadsTogether exampleEnv bothMediaRequest Thumbnail
   \<and> status (answerOf (addProject exampleEnv exampleStore bothMediaRequest)) = 201
   \<and> paired (last (storeOf (addProject exampleEnv exampleStore bothMediaRequest)))
   \<and> suppliesTogether (reqBody replaceVideoRequest) Video
   \<and> suppliesTogether (reqBody replaceVideoRequest) Thumbnail
   \<and> uploadsTogether exampleEnv replaceVideoRequest Video
   \<and> uploadsTogether exampleEnv replaceVideoRequest Thumbnail
   \<and> findById (paramsId replaceVideoRequest) exampleStore = Some projectWithVideo
   \<and> paired projectWithVideo
   \<and> status (answerOf (updateProject exampleEnv exampleStore replaceVideoRequest)) = 200
   \<and> paired (the (findById (paramsId replaceVideoRequest)
                     (storeOf (updateProject exampleEnv exampleStore replaceVideoRequest))))"
proof -
  have ua: "uploadsTogether exampleEnv bothMediaRequest m"
    and uu: "uploadsTogether exampleEnv replaceVideoRequest m" for m
    by (simp_all add: bothMediaRequest_def replaceVideoRequest_def uploads_examples)
  have f: "findById (paramsId replaceVideoRequest) exampleStore = Some projectWithVideo"
    by (simp add: replaceVideoRequest_def requestFor_simps exampleFinds)
  from media_pairing [OF supplies_examples(1) supplies_examples(1) ua ua,
      of exampleStore projectWithVideo] bothMedia_status
  have a: "paired (last (storeOf (addProject exampleEnv exampleStore bothMediaRequest)))"
    by auto
  from media_pairing [OF supplies_examples(2) supplies_examples(2) uu uu,
      of exampleStore projectWithVideo] f paired_example replaceVideo_status
  have u: "paired (the (findById (paramsId replaceVideoRequest)
                     (storeOf (updateProject exampleEnv exampleStore replaceVideoRequest))))"
    by auto
  show ?thesis
    using supplies_examples ua uu f paired_example bothMedia_status replaceVideo_status a u
    by blast
qed

text \<open>
  C2 as stated fails for a body that supplies a URL without its public id:
  \<open>addProject\<close> stores the body as it is.
\<close>

theorem media_pairing_counterexample:
  "status (answerOf (addProject exampleEnv exampleStore urlOnlyRequest)) = 201
   \<and> cloudinaryVideoUrl (last (storeOf (addProject exampleEnv exampleStore urlOnlyRequest)))
       = ''https://media/new''
   \<and> cloudinaryVideoPublicId (last (storeOf (addProject exampleEnv exampleStore urlOnlyRequest)))
       = []
   \<and> \<not> paired (last (storeOf (addProject exampleEnv exampleStore urlOnlyRequest)))"
  unfolding urlOnlyRequest_def
  by (simp add: addProject_json exampleEnv_simps evalNormalize evalSave assignFields_def
        fieldValue_def blankProject_def paired_def pairedFor_def)

text \<open>
  C1 does not hold of \<open>deleteProject\<close>. The handler awaits the delete helpers with no
  \<open>try\<close> of their own: when the deletion of the video rejects, the answer is 500 and
  the record is still stored. With the same media store \<open>updateProject\<close>, which wraps
  each delete call, replaces the video of the record, answers 200 and only writes the
  failure to the console.
\<close>

theorem deleteProject_media_failure:
  "deleteProject failingEnv exampleStore (requestFor ''507f1f77bcf86cd799439011'' []) =
     (respond 500 False ''Error deleting project'' (ErrorText ''media store unreachable''),
      exampleStore,
      [FindById ''507f1f77bcf86cd799439011'', MediaDelete Video ''old'',
       ConsoleError ''Error deleting project:''])
   \<and> findById ''507f1f77bcf86cd799439011''
        (fst (snd (deleteProject failingEnv exampleStore (requestFor ''507f1f77bcf86cd799439011'' []))))
       = Some projectWithVideo
   \<and> status (answerOf (updateProject failingEnv exampleStore replaceVideoRequest)) = 200
   \<and> eventsOf (updateProject failingEnv exampleStore replaceVideoRequest) =
       [FindById ''507f1f77bcf86cd799439011'', MediaDelete Video ''old'',
        ConsoleWarn ''media store unreachable'',
        FindByIdAndUpdate ''507f1f77bcf86cd799439011'']"
proof -
  have v: "hexObjectId ''507f1f77bcf86cd799439011''" by code_simp
  have f: "findById ''507f1f77bcf86cd799439011'' exampleStore = Some projectWithVideo"
    by (simp add: findById_def exampleStore_def projectWithVideo_def projectWithoutMedia_def
          blankProject_def)
  have p: "cloudinaryVideoPublicId projectWithVideo = ''old''"
    by (simp add: projectWithVideo_def)
  have d: "deleteProject failingEnv exampleStore (requestFor ''507f1f77bcf86cd799439011'' []) =
     (respond 500 False ''Error deleting project'' (ErrorText ''media store unreachable''),
      exampleStore,
      [FindById ''507f1f77bcf86cd799439011'', MediaDelete Video ''old'',
       ConsoleError ''Error deleting project:''])"
    by (simp add: deleteProject_def Let_def failingEnv_def exampleEnv_def requestFor_def v f p
          awaitDelete_def)
  have i: "isValidObjectId failingEnv ''507f1f77bcf86cd799439011''"
    by (simp add: failingEnv_def exampleEnv_def v)
  have e: "jsonParse failingEnv = exampleParse"
    "deleteVideoFromCloudinary failingEnv ''old'' = Rejected ''media store unreachable''"
    by (simp_all add: failingEnv_def exampleEnv_def)
  have u: "status (answerOf (updateProject failingEnv exampleStore replaceVideoRequest)) = 200
   \<and> eventsOf (updateProject failingEnv exampleStore replaceVideoRequest) =
       [FindById ''507f1f77bcf86cd799439011'', MediaDelete Video ''old'',
        ConsoleWarn ''media store unreachable'',
        FindByIdAndUpdate ''507f1f77bcf86cd799439011'']"
    unfolding replaceVideoRequest_def
    by (simp add: updateProject_requestFor [OF i exampleFinds(1)] requestFor_simps e
          exampleProject_simps evalNormalize evalUpdate)
  from d f u show ?thesis by simp
qed

section \<open>Properties of the login\<close>

lemma findOne_None: "(findOneByUsername name users = None) = (name \<notin> username ` set users)"
  by (auto simp: findOneByUsername_def find_None_iff)

lemma findOne_Some: "findOneByUsername name users = Some u \<Longrightarrow> username u = name \<and> u \<in> set users"
  by (auto simp: findOneByUsername_def find_Some_iff)

lemma one_day: "spanSeconds ''1d'' = Some (24 * 60 * 60)"
  by (simp add: spanSeconds_def isDigit_def parseInt_def digitVal_def)

lemma jwtSign_configured:
  "configured secret \<Longrightarrow>
   jwtSign claims secret span =
     Resolved \<lparr> tokenId = fst claims, tokenUsername = snd claims,
                tokenSecret = the secret, expiresIn = span \<rparr>"
  by (auto simp: jwtSign_def configured_def split: option.splits)

text \<open>
  C6 (as amended). A login for a username that no user has is answered 404 with no
  cookie; for a user whose password differs from the one sent, 401 with no cookie; for
  matching credentials, when the signing secret \<open>SECRET_KEY\<close> is configured, 200, with
  the username (and the profile picture) in the body and exactly one cookie, named
  \<open>token\<close> and HTTP-only, that lasts 24 hours and holds a token signed with the secret
  over the user's id and username, expiring after one day.
\<close>

theorem login_outcomes:
  "(reqUsername req \<notin> username ` set users \<longrightarrow>
      loginStatus (loginUser e users req) = 404 \<and> cookiesSet (loginUser e users req) = [])
   \<and> (findOneByUsername (reqUsername req) users = Some u \<and> password u \<noteq> reqPassword req \<longrightarrow>
      loginStatus (loginUser e users req) = 401 \<and> cookiesSet (loginUser e users req) = [])
   \<and> (findOneByUsername (reqUsername req) users = Some u \<and> password u = reqPassword req
        \<and> configured (secretKey e) \<longrightarrow>
      loginStatus (loginUser e users req) = 200
      \<and> loginUserEcho (loginUser e users req) = Some (reqUsername req, profilePicLink u)
      \<and> (\<exists>c. cookiesSet (loginUser e users req) = [c]
             \<and> cookieName c = ''token'' \<and> httpOnly c \<and> maxAge c = 24 * 60 * 60 * 1000
             \<and> tokenId (cookieValue c) = userId u
             \<and> tokenUsername (cookieValue c) = reqUsername req
             \<and> tokenSecret (cookieValue c) = the (secretKey e)
             \<and> spanSeconds (expiresIn (cookieValue c)) = Some (24 * 60 * 60)))"
proof (intro conjI impI)
  assume "reqUsername req \<notin> username ` set users"
  then have "findOneByUsername (reqUsername req) users = None" by (simp add: findOne_None)
  then show "loginStatus (loginUser e users req) = 404" "cookiesSet (loginUser e users req) = []"
    by (simp_all add: loginUser_def)
next
  assume a: "findOneByUsername (reqUsername req) users = Some u \<and> password u \<noteq> reqPassword req"
  then show "loginStatus (loginUser e users req) = 401" "cookiesSet (loginUser e users req) = []"
    by (simp_all add: loginUser_def)
next
  assume a: "findOneByUsername (reqUsername req) users = Some u \<and> password u = reqPassword req
        \<and> configured (secretKey e)"
  then have n: "username u = reqUsername req" using findOne_Some by blast
  from a have s: "jwtSign (userId u, reqUsername req) (secretKey e) ''1d'' =
     Resolved \<lparr> tokenId = userId u, tokenUsername = reqUsername req,
                tokenSecret = the (secretKey e), expiresIn = ''1d'' \<rparr>"
    by (simp add: jwtSign_configured)
  from a n s show "loginStatus (loginUser e users req) = 200"
    by (simp add: loginUser_def Let_def)
  from a n s show "loginUserEcho (loginUser e users req) = Some (reqUsername req, profilePicLink u)"
    by (simp add: loginUser_def Let_def)
  from a n s show "\<exists>c. cookiesSet (loginUser e users req) = [c]
             \<and> cookieName c = ''token'' \<and> httpOnly c \<and> maxAge c = 24 * 60 * 60 * 1000
             \<and> tokenId (cookieValue c) = userId u
             \<and> tokenUsername (cookieValue c) = reqUsername req
             \<and> tokenSecret (cookieValue c) = the (secretKey e)
             \<and> spanSeconds (expiresIn (cookieValue c)) = Some (24 * 60 * 60)"
    by (simp add: loginUser_def Let_def one_day)
qed

lemma adminFinds:
  "findOneByUsername ''admin'' [adminUser] = Some adminUser"
  "''nobody'' \<notin> username ` set [adminUser]"
  by (simp_all add: findOneByUsername_def adminUser_def)

lemma loginWith_simps:
  "reqUsername (loginWith n p) = n" "reqPassword (loginWith n p) = p"
  by (simp_all add: loginWith_def)

theorem login_outcomes_witness:
  "reqUsername (loginWith ''nobody'' ''s3cret'') \<notin> username ` set [adminUser]
   \<and> loginStatus (loginUser devEnv [adminUser] (loginWith ''nobody'' ''s3cret'')) = 404
   \<and> cookiesSet (loginUser devEnv [adminUser] (loginWith ''nobody'' ''s3cret'')) = []
   \<and> findOneByUsername (reqUsername (loginWith ''admin'' ''wrong'')) [adminUser] = Some adminUser
   \<and> password adminUser \<noteq> reqPassword (loginWith ''admin'' ''wrong'')
   \<and> loginStatus (loginUser devEnv [adminUser] (loginWith ''admin'' ''wrong'')) = 401
   \<and> cookiesSet (loginUser devEnv [adminUser] (loginWith ''admin'' ''wrong'')) = []
   \<and> findOneByUsername (reqUsername (loginWith ''admin'' ''s3cret'')) [adminUser] = Some adminUser
   \<and> password adminUser = reqPassword (loginWith ''admin'' ''s3cret'')
   \<and> configured (secretKey devEnv)
   \<and> loginStatus (loginUser devEnv [adminUser] (loginWith ''admin'' ''s3cret'')) = 200
   \<and> loginUserEcho (loginUser devEnv [adminUser] (loginWith ''admin'' ''s3cret''))
       = Some (''admin'', ''https://pics/admin.png'')
   \<and> map cookieName (cookiesSet (loginUser devEnv [adminUser] (loginWith ''admin'' ''s3cret'')))
       = [''token'']"
proof -
  have p: "password adminUser = ''s3cret''" "profilePicLink adminUser = ''https://pics/admin.png''"
    by (simp_all add: adminUser_def)
  have c: "configured (secretKey devEnv)"
    by (simp add: configured_def devEnv_def)
  show ?thesis
    using
      login_outcomes [where req = "loginWith ''nobody'' ''s3cret''" and users = "[adminUser]"
        and e = devEnv and u = adminUser]
      login_outcomes [where req = "loginWith ''admin'' ''wrong''" and users = "[adminUser]"
        and e = devEnv and u = adminUser]
      login_outcomes [where req = "loginWith ''admin'' ''s3cret''" and users = "[adminUser]"
        and e = devEnv and u = adminUser]
    by (auto simp: loginWith_simps adminFinds p c simp del: set_simps)
qed

text \<open>
  C6 as stated fails when \<open>SECRET_KEY\<close> is not set, as in an environment set up from
  the README: the credentials match, \<open>jwt.sign\<close> throws, and the answer is 500 with no
  cookie.
\<close>

theorem login_outcomes_counterexample:
  "findOneByUsername (reqUsername (loginWith ''admin'' ''s3cret'')) [adminUser] = Some adminUser
   \<and> password adminUser = reqPassword (loginWith ''admin'' ''s3cret'')
   \<and> loginStatus (loginUser readmeEnv [adminUser] (loginWith ''admin'' ''s3cret'')) = 500
   \<and> loginStatus (loginUser readmeEnv [adminUser] (loginWith ''admin'' ''s3cret'')) \<noteq> 200
   \<and> cookiesSet (loginUser readmeEnv [adminUser] (loginWith ''admin'' ''s3cret'')) = []"
proof -
  have p: "password adminUser = ''s3cret''"
    by (simp add: adminUser_def)
  show ?thesis
    by (simp add: loginUser_def loginWith_simps adminFinds p jwtSign_def readmeEnv_def)
qed

section \<open>Properties of the upload signature\<close>

lemma signatureParams_usable:
  "folderUsable fo \<Longrightarrow>
   signatureParams trim fo ts =
     Some ((if signedFolder trim fo \<noteq> []
            then [(''folder'', JStr (signedFolder trim fo))] else [])
           @ [(''timestamp'', JNum (int ts))])"
  by (cases fo rule: truthyOpt.cases)
     (auto simp: folderUsable_def signatureParams_def signedFolder_def split: jsval.splits)

lemma signatureParams_unusable:
  "\<not> folderUsable fo \<Longrightarrow> signatureParams trim fo ts = None"
  by (cases fo rule: truthyOpt.cases)
     (auto simp: folderUsable_def signatureParams_def split: jsval.splits)

text \<open>
  C7. When one of the three credentials is not configured the signature handler
  answers 500. Otherwise, for a folder argument that is a string or falsy, it signs the
  list of the trimmed folder (only when that is not empty) and the timestamp, nothing
  else: no resource type, no key, no cloud name; and it returns the signature, the
  timestamp, the folder, the resource type (\<open>auto\<close> when none is given), the key and the
  cloud name. A truthy folder that is not a string makes it answer 500. This holds
  whatever the language's \<open>trim\<close> removes.
\<close>

theorem signature_payload:
  "(\<not> configured (apiSecret e) \<or> \<not> configured (apiKey e) \<or> \<not> configured (cloudNameVar e) \<longrightarrow>
      (\<exists>msg. cloudinarySignature sign trim e nowMs b = ServerError 500 msg))
   \<and> (configured (apiSecret e) \<and> configured (apiKey e) \<and> configured (cloudNameVar e)
        \<and> folderUsable (map_of b ''folder'') \<longrightarrow>
      (\<exists>params.
         params = (if signedFolder trim (map_of b ''folder'') \<noteq> []
                   then [(''folder'', JStr (signedFolder trim (map_of b ''folder'')))] else [])
                  @ [(''timestamp'', JNum (int ((nowMs + 500) div 1000)))]
         \<and> fst ` set params \<subseteq> {''folder'', ''timestamp''}
         \<and> cloudinarySignature sign trim e nowMs b =
             Signed \<lparr> signature = sign params (the (apiSecret e)),
                      timestamp = (nowMs + 500) div 1000,
                      folder = signedFolder trim (map_of b ''folder''),
                      resource_type =
                        (case map_of b ''resource_type'' of
                           None \<Rightarrow> JStr ''auto''
                         | Some v \<Rightarrow> if truthy v then v else JStr ''auto''),
                      api_key = the (apiKey e),
                      cloud_name = the (cloudNameVar e) \<rparr>))
   \<and> (configured (apiSecret e) \<and> configured (apiKey e) \<and> configured (cloudNameVar e)
        \<and> \<not> folderUsable (map_of b ''folder'') \<longrightarrow>
      (\<exists>msg. cloudinarySignature sign trim e nowMs b = ServerError 500 msg))"
proof (intro conjI impI)
  assume "\<not> configured (apiSecret e) \<or> \<not> configured (apiKey e) \<or> \<not> configured (cloudNameVar e)"
  then show "\<exists>msg. cloudinarySignature sign trim e nowMs b = ServerError 500 msg"
    by (auto simp: cloudinarySignature_def Let_def)
next
  assume a: "configured (apiSecret e) \<and> configured (apiKey e) \<and> configured (cloudNameVar e)
        \<and> \<not> folderUsable (map_of b ''folder'')"
  then show "\<exists>msg. cloudinarySignature sign trim e nowMs b = ServerError 500 msg"
    by (simp add: cloudinarySignature_def Let_def signatureParams_unusable)
next
  assume a: "configured (apiSecret e) \<and> configured (apiKey e) \<and> configured (cloudNameVar e)
        \<and> folderUsable (map_of b ''folder'')"
  define params where "params =
     (if signedFolder trim (map_of b ''folder'') \<noteq> []
      then [(''folder'', JStr (signedFolder trim (map_of b ''folder'')))] else [])
     @ [(''timestamp'', JNum (int ((nowMs + 500) div 1000)))]"
  have sp: "signatureParams trim (map_of b ''folder'') ((nowMs + 500) div 1000) = Some params"
    using a by (simp add: signatureParams_usable params_def)
  have keys: "fst ` set params \<subseteq> {''folder'', ''timestamp''}"
    by (auto simp: params_def)
  have fo: "(case map_of params ''folder'' of Some (JStr f) \<Rightarrow> f | other \<Rightarrow> [])
              = signedFolder trim (map_of b ''folder'')"
    by (simp add: params_def)
  have "cloudinarySignature sign trim e nowMs b =
             Signed \<lparr> signature = sign params (the (apiSecret e)),
                      timestamp = (nowMs + 500) div 1000,
                      folder = signedFolder trim (map_of b ''folder''),
                      resource_type =
                        (case map_of b ''resource_type'' of
                           None \<Rightarrow> JStr ''auto''
                         | Some v \<Rightarrow> if truthy v then v else JStr ''auto''),
                      api_key = the (apiKey e),
                      cloud_name = the (cloudNameVar e) \<rparr>"
    using a by (simp add: cloudinarySignature_def Let_def sp fo split: option.splits)
  with keys show "\<exists>params.
         params = (if signedFolder trim (map_of b ''folder'') \<noteq> []
                   then [(''folder'', JStr (signedFolder trim (map_of b ''folder'')))] else [])
                  @ [(''timestamp'', JNum (int ((nowMs + 500) div 1000)))]
         \<and> fst ` set params \<subseteq> {''folder'', ''timestamp''}
         \<and> cloudinarySignature sign trim e nowMs b =
             Signed \<lparr> signature = sign params (the (apiSecret e)),
                      timestamp = (nowMs + 500) div 1000,
                      folder = signedFolder trim (map_of b ''folder''),
                      resource_type =
                        (case map_of b ''resource_type'' of
                           None \<Rightarrow> JStr ''auto''
                         | Some v \<Rightarrow> if truthy v then v else JStr ''auto''),
                      api_key = the (apiKey e),
                      cloud_name = the (cloudNameVar e) \<rparr>"
    unfolding params_def by blast
qed

lemma trim_examples:
  "exampleTrim '' project-videos '' = ''project-videos''"
  "exampleTrim [CHR '' '', CHR 0xA0] = []"
  by (simp_all add: exampleTrim_def exampleWhiteSpace_def)

lemma cloud_simps:
  "configured (apiSecret cloudConfigured)" "configured (apiKey cloudConfigured)"
  "configured (cloudNameVar cloudConfigured)" "\<not> configured (apiKey cloudWithoutKey)"
  by (simp_all add: configured_def cloudConfigured_def cloudWithoutKey_def)

theorem signature_payload_witness:
  "configured (apiSecret cloudConfigured) \<and> configured (apiKey cloudConfigured)
   \<and> configured (cloudNameVar cloudConfigured) \<and> folderUsable (map_of signatureBody ''folder'')
   \<and> cloudinarySignature exampleSign exampleTrim cloudConfigured 1700000000499 signatureBody =
        Signed \<lparr> signature = exampleSign [(''folder'', JStr ''project-videos''),
                                          (''timestamp'', JNum 1700000000)] ''cloud-secret'',
                 timestamp = 1700000000, folder = ''project-videos'',
                 resource_type = JStr ''video'', api_key = ''cloud-key'',
                 cloud_name = ''cloud-name'' \<rparr>
   \<and> folderUsable (map_of blankFolderBody ''folder'')
   \<and> cloudinarySignature exampleSign exampleTrim cloudConfigured 1700000000499 blankFolderBody =
        Signed \<lparr> signature = exampleSign [(''timestamp'', JNum 1700000000)] ''cloud-secret'',
                 timestamp = 1700000000, folder = [],
                 resource_type = JStr ''auto'', api_key = ''cloud-key'',
                 cloud_name = ''cloud-name'' \<rparr>
   \<and> \<not> configured (apiKey cloudWithoutKey)
   \<and> (\<exists>msg. cloudinarySignature exampleSign exampleTrim cloudWithoutKey 1700000000499
               signatureBody = ServerError 500 msg)
   \<and> \<not> folderUsable (map_of [(''folder'', JNum 5)] ''folder'')
   \<and> (\<exists>msg. cloudinarySignature exampleSign exampleTrim cloudConfigured 1700000000499
               [(''folder'', JNum 5)] = ServerError 500 msg)"
proof -
  have fu: "folderUsable (map_of signatureBody ''folder'')"
    "folderUsable (map_of blankFolderBody ''folder'')"
    "\<not> folderUsable (Some (JNum 5))"
    by (simp_all add: folderUsable_def signatureBody_def blankFolderBody_def)
  have sf: "signedFolder exampleTrim (map_of signatureBody ''folder'') = ''project-videos''"
    "signedFolder exampleTrim (map_of blankFolderBody ''folder'') = []"
    by (simp_all add: signedFolder_def signatureBody_def blankFolderBody_def trim_examples)
  have rt: "map_of signatureBody ''resource_type'' = Some (JStr ''video'')"
    "map_of blankFolderBody ''resource_type'' = None"
    by (simp_all add: signatureBody_def blankFolderBody_def)
  have c: "the (apiSecret cloudConfigured) = ''cloud-secret''"
    "the (apiKey cloudConfigured) = ''cloud-key''"
    "the (cloudNameVar cloudConfigured) = ''cloud-name''"
    by (simp_all add: cloudConfigured_def)
  show ?thesis
    using
      signature_payload [of cloudConfigured exampleSign exampleTrim 1700000000499 signatureBody]
      signature_payload [of cloudConfigured exampleSign exampleTrim 1700000000499 blankFolderBody]
      signature_payload [of cloudWithoutKey exampleSign exampleTrim 1700000000499 signatureBody]
      signature_payload [of cloudConfigured exampleSign exampleTrim 1700000000499
        "[(''folder'', JNum 5)]"]
    by (simp add: cloud_simps fu sf rt c)
qed

section \<open>Properties of the throttle\<close>

lemma timerInvariant_init: "timerInvariant throttleInit"
  by (simp add: timerInvariant_def throttleInit_def)

lemma timerSet_invariant:
  "timerInvariant s \<Longrightarrow> timerSet (timeoutId s) = (timeoutId s \<noteq> None)"
  by (auto simp: timerInvariant_def timerSet_def split: option.splits)

lemma timerInvariant_throttled:
  assumes "timerInvariant s"
  shows "timerInvariant (throttled limit now this args s)"
proof (cases "timeoutId s")
  case None
  with assms show ?thesis
    by (simp add: timerInvariant_def throttled_def Let_def timerSet_def)
next
  case (Some i)
  with assms show ?thesis
    by (auto simp: timerInvariant_def throttled_def Let_def timerSet_def clearTimeout_def)
qed

lemma timerInvariant_occur:
  assumes "timerInvariant s"
  shows "timerInvariant (occur limit oc s)"
proof (cases oc)
  case (Call now this args)
  with assms show ?thesis by (simp add: timerInvariant_throttled)
next
  case (Fire tid now)
  with assms show ?thesis
    by (auto simp: timerInvariant_def later_def split: option.splits)
qed

lemma runThrottle_snoc:
  "runThrottle limit (os @ [oc]) = occur limit oc (runThrottle limit os)"
  by (simp add: runThrottle_def)

lemma timerInvariant_run: "timerInvariant (runThrottle limit os)"
  by (induction os rule: rev_induct)
     (simp_all add: runThrottle_snoc timerInvariant_occur,
      simp add: runThrottle_def timerInvariant_init)

lemma timers_at_most_one: "timerInvariant s \<Longrightarrow> length (timers s) \<le> 1"
  by (auto simp: timerInvariant_def split: option.splits)

lemma mostRecentCall_snoc:
  "mostRecentCall (os @ [oc]) =
     (case oc of Call now this args \<Rightarrow> (Some this, Some args) | Fire tid now \<Rightarrow> mostRecentCall os)"
  by (cases oc) (simp_all add: mostRecentCall_def)

lemma stored_throttled:
  "lastThis (throttled limit now this args s) = Some this"
  "lastArgs (throttled limit now this args s) = Some args"
  by (simp_all add: throttled_def Let_def)

lemma stored_occur:
  "(lastThis (occur limit oc s), lastArgs (occur limit oc s)) =
     (case oc of Call now this args \<Rightarrow> (Some this, Some args)
      | Fire tid now \<Rightarrow> (lastThis s, lastArgs s))"
  by (cases oc) (simp_all add: stored_throttled later_def)

lemma stored_run:
  "(lastThis (runThrottle limit os), lastArgs (runThrottle limit os)) = mostRecentCall os"
proof (induction os rule: rev_induct)
  case Nil
  show ?case by (simp add: runThrottle_def mostRecentCall_def throttleInit_def)
next
  case (snoc oc os)
  then show ?case
    by (simp add: runThrottle_snoc mostRecentCall_snoc stored_occur split: occurrence.splits)
qed

lemma invoked_occur:
  "invoked (occur limit oc s) = invoked s
   \<or> invoked (occur limit oc s) = invoked s @ [(lastThis (occur limit oc s), lastArgs (occur limit oc s))]"
  by (cases oc) (simp_all add: throttled_def Let_def later_def)

lemma quiet_call:
  assumes "limit \<le> now - lastCall s"
  shows "invoked (throttled limit now this args s) = invoked s @ [(Some this, Some args)]"
    and "timerInvariant s \<Longrightarrow> timers (throttled limit now this args s) = []"
    and "lastCall (throttled limit now this args s) = now"
  using assms
  by (auto simp: throttled_def Let_def timerInvariant_def timerSet_def clearTimeout_def
      split: option.splits)

text \<open>
  C10. After any sequence of calls and timer firings of a throttled function, at most
  one timer (one trailing invocation) is pending; a call stores its arguments, so that
  whatever an occurrence invokes, at once or from the timer, is invoked with the \<open>this\<close>
  and the arguments of the most recent call; and a call that comes at least \<open>limit\<close>
  after the last invocation (the first call of a quiet period) is invoked at once and
  leaves no timer pending.
\<close>

theorem throttle_behaviour:
  "length (timers (runThrottle limit os)) \<le> 1
   \<and> lastArgs (runThrottle limit (os @ [Call now this args])) = Some args
   \<and> (invoked (runThrottle limit (os @ [oc])) = invoked (runThrottle limit os)
       \<or> invoked (runThrottle limit (os @ [oc])) =
           invoked (runThrottle limit os) @ [mostRecentCall (os @ [oc])])
   \<and> (limit \<le> now - lastCall (runThrottle limit os) \<longrightarrow>
        invoked (runThrottle limit (os @ [Call now this args])) =
          invoked (runThrottle limit os) @ [(Some this, Some args)]
        \<and> timers (runThrottle limit (os @ [Call now this args])) = [])"
proof (intro conjI impI)
  show "length (timers (runThrottle limit os)) \<le> 1"
    by (rule timers_at_most_one [OF timerInvariant_run])
  show "lastArgs (runThrottle limit (os @ [Call now this args])) = Some args"
    by (simp add: runThrottle_snoc stored_throttled)
  show "invoked (runThrottle limit (os @ [oc])) = invoked (runThrottle limit os)
       \<or> invoked (runThrottle limit (os @ [oc])) =
           invoked (runThrottle limit os) @ [mostRecentCall (os @ [oc])]"
    using invoked_occur [of limit oc "runThrottle limit os"] stored_run [of limit "os @ [oc]"]
    by (simp add: runThrottle_snoc)
next
  assume q: "limit \<le> now - lastCall (runThrottle limit os)"
  show "invoked (runThrottle limit (os @ [Call now this args])) =
          invoked (runThrottle limit os) @ [(Some this, Some args)]"
    using quiet_call(1) [OF q] by (simp add: runThrottle_snoc)
  show "timers (runThrottle limit (os @ [Call now this args])) = []"
    using quiet_call(2) [OF q timerInvariant_run] by (simp add: runThrottle_snoc)
qed

lemma throttleStart_run:
  "runThrottle 100 throttleStart =
     \<lparr> lastCall = 1100, lastArgs = Some 2, lastThis = Some ''window'', timeoutId = None,
       timers = [], nextTimer = 2,
       invoked = [(Some ''window'', Some 1), (Some ''window'', Some 2)] \<rparr>"
  by (simp add: runThrottle_def throttleStart_def throttleInit_def throttled_def later_def
        timerSet_def clearTimeout_def Let_def)

theorem throttle_behaviour_witness:
  "100 \<le> 5000 - lastCall (runThrottle 100 throttleStart)
   \<and> invoked (runThrottle 100 (throttleStart @ [Call 5000 ''window'' 3])) =
       [(Some ''window'', Some 1), (Some ''window'', Some 2), (Some ''window'', Some 3)]
   \<and> timers (runThrottle 100 (throttleStart @ [Call 5000 ''window'' 3])) = []
   \<and> length (timers (runThrottle 100 [Call 1000 ''window'' (1::nat), Call 1010 ''window'' 2])) = 1"
proof -
  have q: "100 \<le> 5000 - lastCall (runThrottle 100 throttleStart)"
    by (simp add: throttleStart_run)
  have one: "length (timers (runThrottle 100 [Call 1000 ''window'' (1::nat), Call 1010 ''window'' 2])) = 1"
    by (simp add: runThrottle_def throttleInit_def throttled_def timerSet_def Let_def)
  from throttle_behaviour [of 100 throttleStart 5000 "''window''" 3] q one
  show ?thesis by (simp add: throttleStart_run)
qed

end
